theory Spec2Isabelle
  imports Complex_Main "HOL-Library.Char_ord" "HOL-Library.List_Lexorder"
begin

section \<open>Data model\<close>

text \<open>
  The pipeline works on pandas data frames. A cell of a frame is a number, a text
  value or a missing value (pandas' NaN / None). Floating-point numbers are modelled
  as exact reals; a float result that can be not-a-number is a \<open>real option\<close> with
  \<open>None\<close> for NaN. The values of an integer column are numbers of the same kind; where
  the code computes on 64-bit integers that can wrap around (the subtraction of
  \<open>add_temp_delta\<close>), the statements are about values that fit the 64-bit range. A frame is its row labels and its columns in order, each column
  a name and the series of its cells. Column labels are taken to be distinct and every
  series as long as the index (\<open>wf_frame\<close>), as in every frame that \<open>read_csv\<close> builds.
\<close>

datatype cell = Num real | Str string | NaN

type_synonym pyfloat = "real option"

datatype error = KeyError | TypeError | ValueError | ZeroDivisionError

record dataframe =
  index :: "int list"
  cols :: "(string \<times> cell list) list"

definition columns :: "dataframe \<Rightarrow> string list" where
  "columns d = map fst (cols d)"

definition len_df :: "dataframe \<Rightarrow> nat" where
  "len_df d = length (index d)"

definition get_col :: "dataframe \<Rightarrow> string \<Rightarrow> error + cell list" where
  \<comment> \<open>\<open>df[col]\<close>: KeyError when the column is absent.\<close>
  "get_col d c = (case map_of (cols d) c of None \<Rightarrow> Inl KeyError | Some s \<Rightarrow> Inr s)"

definition wf_frame :: "dataframe \<Rightarrow> bool" where
  "wf_frame d = (distinct (columns d) \<and> list_all (\<lambda>p. length (snd p) = length (index d)) (cols d))"

fun is_text :: "cell \<Rightarrow> bool" where
  "is_text (Str s) = True"
| "is_text c = False"

definition has_text :: "cell list \<Rightarrow> bool" where
  "has_text series = list_ex is_text series"

fun nums_of :: "cell list \<Rightarrow> real list" where
  \<comment> \<open>The numbers of a series, missing values skipped (\<open>skipna\<close>).\<close>
  "nums_of [] = []"
| "nums_of (Num x # cs) = x # nums_of cs"
| "nums_of (c # cs) = nums_of cs"

definition count_where :: "(real \<Rightarrow> bool) \<Rightarrow> cell list \<Rightarrow> error + nat" where
  \<comment> \<open>\<open>(series <op> bound).sum()\<close>: a missing value compares False, a text value
      raises TypeError.\<close>
  "count_where p series =
     (if has_text series then Inl TypeError else Inr (length (filter p (nums_of series))))"

definition series_min :: "cell list \<Rightarrow> error + pyfloat" where
  "series_min series =
     (if has_text series then Inl TypeError
      else case nums_of series of [] \<Rightarrow> Inr None | x # xs \<Rightarrow> Inr (Some (fold min xs x)))"

definition series_max :: "cell list \<Rightarrow> error + pyfloat" where
  "series_max series =
     (if has_text series then Inl TypeError
      else case nums_of series of [] \<Rightarrow> Inr None | x # xs \<Rightarrow> Inr (Some (fold max xs x)))"

definition unique :: "cell list \<Rightarrow> cell list" where
  \<comment> \<open>\<open>set(series.unique())\<close>: the distinct cells; Python leaves the order of a set
      open, so only the elements of this list are meaningful.\<close>
  "unique series = remdups series"

section \<open>Configuration (config.py)\<close>

definition REQUIRED_COLUMNS :: "string list" where
  "REQUIRED_COLUMNS =
     [''UDI'', ''Product ID'', ''Type'', ''Air temperature [K]'', ''Process temperature [K]'',
      ''Rotational speed [rpm]'', ''Torque [Nm]'', ''Tool wear [min]'', ''Machine failure'',
      ''TWF'', ''HDF'', ''PWF'', ''OSF'', ''RNF'']"

definition FAILURE_MODE_COLS :: "string list" where
  "FAILURE_MODE_COLS = [''TWF'', ''HDF'', ''PWF'', ''OSF'', ''RNF'']"

definition TARGET_COL :: string where
  "TARGET_COL = ''Machine failure''"

definition VALID_TYPES :: "string list" where
  "VALID_TYPES = [''L'', ''M'', ''H'']"

record range_rule =
  minimum :: "int option"
  maximum :: "int option"
  strict_positive :: bool

definition VALIDATION_RULES :: "(string \<times> range_rule) list" where
  "VALIDATION_RULES =
     [(''Torque [Nm]'', \<lparr>minimum = Some 0, maximum = None, strict_positive = False\<rparr>),
      (''Tool wear [min]'', \<lparr>minimum = Some 0, maximum = None, strict_positive = False\<rparr>),
      (''Rotational speed [rpm]'', \<lparr>minimum = Some 0, maximum = None, strict_positive = True\<rparr>),
      (''Air temperature [K]'', \<lparr>minimum = Some 0, maximum = None, strict_positive = True\<rparr>),
      (''Process temperature [K]'', \<lparr>minimum = Some 0, maximum = None, strict_positive = True\<rparr>)]"

section \<open>Validation (validation.py)\<close>

datatype status = PASS | WARN | FAIL

text \<open>
  A message is the text the check builds. Where the f-string prints a Python set or a
  float with two decimals, the message keeps the printed values instead of their
  rendering: \<open>InvalidTypes\<close>, \<open>ValidTypes\<close> and \<open>WithinRange\<close>.
\<close>

datatype message =
    Plain string
  | InvalidTypes "cell list"
  | ValidTypes "cell list"
  | WithinRange pyfloat pyfloat

datatype detail =
    DNat nat
  | DFloat pyfloat
  | DNames "string list"
  | DCells "cell list"
  | DLabels "int list"
  | DColumnCells "(string \<times> cell list) list"
  | DColumnCounts "(string \<times> nat) list"

record ValidationResult =
  check_name :: string
  status :: status
  message :: message
  details :: "(string \<times> detail) list"

record validator =
  df :: dataframe
  results :: "ValidationResult list"

definition append_result :: "validator \<Rightarrow> ValidationResult \<Rightarrow> validator" where
  \<comment> \<open>\<open>self.results.append(result)\<close>\<close>
  "append_result v r = v\<lparr>results := results v @ [r]\<rparr>"

fun str_nat :: "nat \<Rightarrow> string" where
  "str_nat n =
     (if n < 10 then [''0123456789'' ! n] else str_nat (n div 10) @ [''0123456789'' ! (n mod 10)])"

definition str_int :: "int \<Rightarrow> string" where
  "str_int i = (if i < 0 then ''-'' @ str_nat (nat (- i)) else str_nat (nat i))"

definition quote :: string where
  "quote = [CHR 0x27]"

fun join :: "string \<Rightarrow> string list \<Rightarrow> string" where
  "join sep [] = []"
| "join sep [s] = s"
| "join sep (s # t # ss) = s @ sep @ join sep (t # ss)"

subsection \<open>Required Columns\<close>

definition missing_required :: "dataframe \<Rightarrow> string list" where
  \<comment> \<open>\<open>set(REQUIRED_COLUMNS) - set(self.df.columns)\<close>, listed.\<close>
  "missing_required d = filter (\<lambda>c. c \<notin> set (columns d)) (remdups REQUIRED_COLUMNS)"

definition required_columns_result :: "dataframe \<Rightarrow> ValidationResult" where
  "required_columns_result d =
     (let missing = missing_required d in
      if missing \<noteq> [] then
        \<lparr>check_name = ''Required Columns'', status = FAIL,
         message = Plain (''Missing '' @ str_nat (length missing) @ '' required column(s).''),
         details = [(''missing_columns'', DNames missing)]\<rparr>
      else
        \<lparr>check_name = ''Required Columns'', status = PASS,
         message = Plain (''All '' @ str_nat (length REQUIRED_COLUMNS) @ '' required columns present.''),
         details = [(''column_count'', DNat (length REQUIRED_COLUMNS))]\<rparr>)"

definition check_required_columns :: "validator \<Rightarrow> ValidationResult \<times> validator" where
  "check_required_columns v =
     (let result = required_columns_result (df v) in (result, append_result v result))"

subsection \<open>Type Domain\<close>

definition type_domain_result :: "dataframe \<Rightarrow> ValidationResult" where
  "type_domain_result d =
     (case map_of (cols d) ''Type'' of
        None \<Rightarrow>
          \<lparr>check_name = ''Type Domain'', status = FAIL,
           message = Plain (quote @ ''Type'' @ quote @ '' column not found.''),
           details = []\<rparr>
      | Some series \<Rightarrow>
          (let actual_types = unique series;
               invalid = filter (\<lambda>c. c \<notin> set (map Str VALID_TYPES)) actual_types in
           if invalid \<noteq> [] then
             \<lparr>check_name = ''Type Domain'', status = FAIL,
              message = InvalidTypes invalid,
              details = [(''invalid_values'', DCells invalid),
                         (''valid_values'', DNames VALID_TYPES)]\<rparr>
           else
             \<lparr>check_name = ''Type Domain'', status = PASS,
              message = ValidTypes actual_types,
              details = [(''found_types'', DCells actual_types)]\<rparr>))"

definition check_type_domain :: "validator \<Rightarrow> ValidationResult \<times> validator" where
  "check_type_domain v =
     (let result = type_domain_result (df v) in (result, append_result v result))"

subsection \<open>Numeric Range\<close>

definition min_violations :: "range_rule \<Rightarrow> cell list \<Rightarrow> error + string list" where
  "min_violations rules series =
     (case minimum rules of
        None \<Rightarrow> Inr []
      | Some min_val \<Rightarrow>
          if strict_positive rules then
            (case count_where (\<lambda>x. x \<le> of_int min_val) series of
               Inl e \<Rightarrow> Inl e
             | Inr bad_count \<Rightarrow>
                 Inr (if bad_count > 0
                      then [str_nat bad_count @ '' values <= '' @ str_int min_val] else []))
          else
            (case count_where (\<lambda>x. x < of_int min_val) series of
               Inl e \<Rightarrow> Inl e
             | Inr bad_count \<Rightarrow>
                 Inr (if bad_count > 0
                      then [str_nat bad_count @ '' values < '' @ str_int min_val] else [])))"

definition max_violations :: "range_rule \<Rightarrow> cell list \<Rightarrow> error + string list" where
  "max_violations rules series =
     (case maximum rules of
        None \<Rightarrow> Inr []
      | Some max_val \<Rightarrow>
          (case count_where (\<lambda>x. x > of_int max_val) series of
             Inl e \<Rightarrow> Inl e
           | Inr bad_count \<Rightarrow>
               Inr (if bad_count > 0
                    then [str_nat bad_count @ '' values > '' @ str_int max_val] else [])))"

definition range_check_present :: "string \<Rightarrow> range_rule \<Rightarrow> cell list \<Rightarrow> error + ValidationResult" where
  \<comment> \<open>The \<open>else\<close> branch of the loop body: the column is present.\<close>
  "range_check_present col rules series =
     (case min_violations rules series of
        Inl e \<Rightarrow> Inl e
      | Inr low_msgs \<Rightarrow>
     (case max_violations rules series of
        Inl e \<Rightarrow> Inl e
      | Inr high_msgs \<Rightarrow>
     (case series_min series of
        Inl e \<Rightarrow> Inl e
      | Inr lo \<Rightarrow>
     (case series_max series of
        Inl e \<Rightarrow> Inl e
      | Inr hi \<Rightarrow>
          (let violations = low_msgs @ high_msgs in
           if violations \<noteq> [] then
             Inr \<lparr>check_name = ''Range Check: '' @ col, status = FAIL,
                  message = Plain (join ''; '' violations),
                  details = [(''min'', DFloat lo), (''max'', DFloat hi)]\<rparr>
           else
             Inr \<lparr>check_name = ''Range Check: '' @ col, status = PASS,
                  message = WithinRange lo hi,
                  details = [(''min'', DFloat lo), (''max'', DFloat hi)]\<rparr>)))))"

definition range_check :: "dataframe \<Rightarrow> string \<Rightarrow> range_rule \<Rightarrow> error + ValidationResult" where
  \<comment> \<open>One pass of the loop of \<open>check_numeric_ranges\<close>.\<close>
  "range_check d col rules =
     (case map_of (cols d) col of
        None \<Rightarrow>
          Inr \<lparr>check_name = ''Range Check: '' @ col, status = WARN,
               message = Plain (''Column '' @ quote @ col @ quote @ '' not found, skipping range check.''),
               details = []\<rparr>
      | Some series \<Rightarrow> range_check_present col rules series)"

fun range_loop ::
  "(string \<times> range_rule) list \<Rightarrow> ValidationResult list \<Rightarrow> validator
     \<Rightarrow> error + (ValidationResult list \<times> validator)" where
  "range_loop [] acc v = Inr (acc, v)"
| "range_loop ((col, rules) # rest) acc v =
     (case range_check (df v) col rules of
        Inl e \<Rightarrow> Inl e
      | Inr result \<Rightarrow> range_loop rest (acc @ [result]) (append_result v result))"

definition check_numeric_ranges :: "validator \<Rightarrow> error + (ValidationResult list \<times> validator)" where
  "check_numeric_ranges v = range_loop VALIDATION_RULES [] v"

subsection \<open>Binary Flags\<close>

definition is_binary :: "cell list \<Rightarrow> bool" where
  \<comment> \<open>\<open>unique_vals.issubset({0, 1})\<close>\<close>
  "is_binary vals = list_all (\<lambda>c. c = Num 0 \<or> c = Num 1) vals"

fun non_binary_loop :: "dataframe \<Rightarrow> string list \<Rightarrow> (string \<times> cell list) list" where
  "non_binary_loop d [] = []"
| "non_binary_loop d (col # rest) =
     (case map_of (cols d) col of
        None \<Rightarrow> non_binary_loop d rest
      | Some series \<Rightarrow>
          (let unique_vals = unique series in
           if \<not> is_binary unique_vals then (col, unique_vals) # non_binary_loop d rest
           else non_binary_loop d rest))"

definition binary_flags_result :: "dataframe \<Rightarrow> ValidationResult" where
  "binary_flags_result d =
     (let all_flag_cols = TARGET_COL # FAILURE_MODE_COLS;
          non_binary = non_binary_loop d all_flag_cols in
      if non_binary \<noteq> [] then
        \<lparr>check_name = ''Binary Flags'', status = FAIL,
         message = Plain (str_nat (length non_binary) @ '' column(s) have non-binary values.''),
         details = [(''non_binary_columns'', DColumnCells non_binary)]\<rparr>
      else
        \<lparr>check_name = ''Binary Flags'', status = PASS,
         message = Plain (''All '' @ str_nat (length all_flag_cols) @ '' flag columns are binary (0/1).''),
         details = [(''columns_checked'', DNames all_flag_cols)]\<rparr>)"

definition check_binary_flags :: "validator \<Rightarrow> ValidationResult \<times> validator" where
  "check_binary_flags v =
     (let result = binary_flags_result (df v) in (result, append_result v result))"

subsection \<open>Failure Consistency\<close>

definition violating_labels :: "int list \<Rightarrow> cell list \<Rightarrow> cell list \<Rightarrow> int list" where
  \<comment> \<open>The labels of \<open>df[no_failure_mask & (df[col] == 1)]\<close>.\<close>
  "violating_labels ix target flags =
     map fst (filter (\<lambda>(i, t, f). t = Num 0 \<and> f = Num 1) (zip ix (zip target flags)))"

fun inconsistent_loop :: "dataframe \<Rightarrow> cell list \<Rightarrow> string list \<Rightarrow> int list" where
  "inconsistent_loop d target [] = []"
| "inconsistent_loop d target (col # rest) =
     (case map_of (cols d) col of
        None \<Rightarrow> inconsistent_loop d target rest
      | Some flags \<Rightarrow>
          (let violations = violating_labels (index d) target flags in
           (if length violations > 0 then violations else []) @ inconsistent_loop d target rest))"

definition failure_consistency_result :: "dataframe \<Rightarrow> ValidationResult" where
  \<comment> \<open>\<open>list(set(inconsistent_rows))\<close> is modelled by the distinct labels in the order
      of the loop; Python lists them in the order of its set, so of \<open>sample_indices\<close>
      only the labels and their number are meaningful.\<close>
  "failure_consistency_result d =
     (case map_of (cols d) TARGET_COL of
        None \<Rightarrow>
          \<lparr>check_name = ''Failure Consistency'', status = WARN,
           message = Plain (quote @ TARGET_COL @ quote @ '' column not found.''),
           details = []\<rparr>
      | Some target \<Rightarrow>
          (let inconsistent_rows = remdups (inconsistent_loop d target FAILURE_MODE_COLS);
               n_violations = length inconsistent_rows in
           if n_violations > 0 then
             \<lparr>check_name = ''Failure Consistency'', status = WARN,
              message = Plain (str_nat n_violations
                               @ '' row(s) have Machine failure=0 but a failure mode=1.''),
              details = [(''violation_count'', DNat n_violations),
                         (''sample_indices'', DLabels (take 10 inconsistent_rows))]\<rparr>
           else
             \<lparr>check_name = ''Failure Consistency'', status = PASS,
              message = Plain ''All records are consistent (failure=0 implies all modes=0).'',
              details = []\<rparr>))"

definition check_failure_consistency :: "validator \<Rightarrow> ValidationResult \<times> validator" where
  "check_failure_consistency v =
     (let result = failure_consistency_result (df v) in (result, append_result v result))"

subsection \<open>Null Values\<close>

definition null_count :: "cell list \<Rightarrow> nat" where
  "null_count series = length (filter (\<lambda>c. c = NaN) series)"

definition null_values_result :: "dataframe \<Rightarrow> ValidationResult" where
  "null_values_result d =
     (let null_counts = map (\<lambda>(c, series). (c, null_count series)) (cols d);
          cols_with_nulls = filter (\<lambda>(c, n). n > 0) null_counts in
      if length cols_with_nulls > 0 then
        \<lparr>check_name = ''Null Values'', status = WARN,
         message = Plain (str_nat (length cols_with_nulls) @ '' column(s) have null values.''),
         details = [(''null_counts'', DColumnCounts cols_with_nulls)]\<rparr>
      else
        \<lparr>check_name = ''Null Values'', status = PASS,
         message = Plain ''No null values found in any column.'',
         details = [(''total_rows'', DNat (len_df d))]\<rparr>)"

definition check_null_values :: "validator \<Rightarrow> ValidationResult \<times> validator" where
  "check_null_values v =
     (let result = null_values_result (df v) in (result, append_result v result))"

subsection \<open>The battery\<close>

definition run_all_checks :: "validator \<Rightarrow> error + (ValidationResult list \<times> validator)" where
  "run_all_checks v =
     (let v0 = v\<lparr>results := []\<rparr>;
          v1 = snd (check_required_columns v0);
          v2 = snd (check_type_domain v1) in
      case check_numeric_ranges v2 of
        Inl e \<Rightarrow> Inl e
      | Inr (ranges, v3) \<Rightarrow>
          (let v4 = snd (check_binary_flags v3);
               v5 = snd (check_failure_consistency v4);
               v6 = snd (check_null_values v5) in
           Inr (results v6, v6)))"

section \<open>KPI computation (kpi.py)\<close>

text \<open>
  The aggregations sum and average numeric columns. On a column that holds text pandas
  concatenates or raises, depending on the cells; the model raises TypeError there, and
  every statement below about a returned aggregate is about columns without text.
\<close>

definition series_sum :: "cell list \<Rightarrow> error + real" where
  \<comment> \<open>\<open>series.sum()\<close>: missing values are skipped, the empty sum is 0.\<close>
  "series_sum series = (if has_text series then Inl TypeError else Inr (sum_list (nums_of series)))"

definition py_int :: "real \<Rightarrow> int" where
  \<comment> \<open>\<open>int(x)\<close> truncates towards zero.\<close>
  "py_int x = (if x \<ge> 0 then \<lfloor>x\<rfloor> else \<lceil>x\<rceil>)"

definition select :: "bool list \<Rightarrow> 'a list \<Rightarrow> 'a list" where
  "select msk xs = map snd (filter fst (zip msk xs))"

definition select_rows :: "bool list \<Rightarrow> dataframe \<Rightarrow> dataframe" where
  \<comment> \<open>\<open>df[mask]\<close>\<close>
  "select_rows msk d =
     \<lparr>index = select msk (index d), cols = map (\<lambda>(c, s). (c, select msk s)) (cols d)\<rparr>"

subsection \<open>Overall failure rate\<close>

record overall_rate =
  total_records :: nat
  failure_count :: int
  failure_rate :: real
  failure_rate_pct :: real

definition compute_overall_failure_rate :: "dataframe \<Rightarrow> error + overall_rate" where
  "compute_overall_failure_rate d =
     (let total = len_df d in
      case get_col d TARGET_COL of
        Inl e \<Rightarrow> Inl e
      | Inr target \<Rightarrow>
     (case series_sum target of
        Inl e \<Rightarrow> Inl e
      | Inr failures \<Rightarrow>
          (let rate = (if total > 0 then failures / real total else 0) in
           Inr \<lparr>total_records = total, failure_count = py_int failures,
                failure_rate = rate, failure_rate_pct = rate * 100\<rparr>)))"

subsection \<open>Failure rate by Type\<close>

record type_row =
  Type :: cell
  t_count :: nat
  t_failure_count :: real
  t_failure_rate :: real
  t_failure_rate_pct :: real

fun texts_of :: "cell list \<Rightarrow> string list" where
  "texts_of [] = []"
| "texts_of (Str s # cs) = s # texts_of cs"
| "texts_of (c # cs) = texts_of cs"

definition group_keys :: "cell list \<Rightarrow> cell list" where
  \<comment> \<open>The keys of \<open>groupby\<close>: the distinct values in sorted order (numbers before text,
      as pandas sorts mixed keys); rows with a missing key are dropped by \<open>groupby\<close>.\<close>
  "group_keys series =
     map Num (sort (remdups (nums_of series))) @ map Str (sort (remdups (texts_of series)))"

definition group_row :: "cell list \<Rightarrow> cell list \<Rightarrow> cell \<Rightarrow> error + type_row" where
  \<comment> \<open>One group: its size, the sum of the target over it, and the two derived columns.\<close>
  "group_row types target k =
     (let members = select (map (\<lambda>c. c = k) types) target in
      case series_sum members of
        Inl e \<Rightarrow> Inl e
      | Inr failures \<Rightarrow>
          (let n = length members; rate = failures / real n in
           Inr \<lparr>Type = k, t_count = n, t_failure_count = failures,
                t_failure_rate = rate, t_failure_rate_pct = rate * 100\<rparr>))"

fun group_rows :: "cell list \<Rightarrow> cell list \<Rightarrow> cell list \<Rightarrow> error + type_row list" where
  "group_rows types target [] = Inr []"
| "group_rows types target (k # ks) =
     (case group_row types target k of
        Inl e \<Rightarrow> Inl e
      | Inr r \<Rightarrow>
     (case group_rows types target ks of
        Inl e \<Rightarrow> Inl e
      | Inr rs \<Rightarrow> Inr (r # rs)))"

definition type_order :: "cell \<Rightarrow> nat option" where
  \<comment> \<open>\<open>grouped["Type"].map(type_order)\<close>: a key outside the mapping gets a missing
      sort key.\<close>
  "type_order c =
     (if c = Str ''L'' then Some 0 else if c = Str ''M'' then Some 1
      else if c = Str ''H'' then Some 2 else None)"

definition sort_by_type_order :: "type_row list \<Rightarrow> type_row list" where
  \<comment> \<open>\<open>sort_values("sort_key")\<close>: ascending by the key, rows with a missing key last
      (\<open>na_position='last'\<close>), in the order they had.\<close>
  "sort_by_type_order rows =
     sort_key (\<lambda>r. case type_order (Type r) of Some k \<Rightarrow> k | None \<Rightarrow> 0)
              (filter (\<lambda>r. type_order (Type r) \<noteq> None) rows)
     @ filter (\<lambda>r. type_order (Type r) = None) rows"

definition compute_failure_rate_by_type :: "dataframe \<Rightarrow> error + type_row list" where
  "compute_failure_rate_by_type d =
     (case get_col d ''Type'' of
        Inl e \<Rightarrow> Inl e
      | Inr types \<Rightarrow>
     (case get_col d TARGET_COL of
        Inl e \<Rightarrow> Inl e
      | Inr target \<Rightarrow>
     (case group_rows types target (group_keys types) of
        Inl e \<Rightarrow> Inl e
      | Inr grouped \<Rightarrow> Inr (sort_by_type_order grouped))))"

subsection \<open>Failure mode counts\<close>

record mode_record =
  failure_mode :: string
  m_count :: int
  pct_of_failures :: real
  pct_of_total :: real

fun mode_loop :: "dataframe \<Rightarrow> real \<Rightarrow> nat \<Rightarrow> string list \<Rightarrow> error + mode_record list" where
  "mode_loop d total_failures n_records [] = Inr []"
| "mode_loop d total_failures n_records (mode # rest) =
     (case get_col d mode of
        Inl e \<Rightarrow> Inl e
      | Inr series \<Rightarrow>
     (case series_sum series of
        Inl e \<Rightarrow> Inl e
      | Inr s \<Rightarrow>
          (let count = py_int s;
               pct_f = (if total_failures > 0 then of_int count / total_failures * 100 else 0) in
           \<comment> \<open>\<open>count / total_records * 100\<close> divides two Python ints, unguarded.\<close>
           if n_records = 0 then Inl ZeroDivisionError
           else
             (let pct_t = of_int count / real n_records * 100 in
              case mode_loop d total_failures n_records rest of
                Inl e \<Rightarrow> Inl e
              | Inr records \<Rightarrow>
                  Inr (\<lparr>failure_mode = mode, m_count = count,
                        pct_of_failures = pct_f, pct_of_total = pct_t\<rparr> # records)))))"

definition compute_failure_mode_counts :: "dataframe \<Rightarrow> error + mode_record list" where
  "compute_failure_mode_counts d =
     (case get_col d TARGET_COL of
        Inl e \<Rightarrow> Inl e
      | Inr target \<Rightarrow>
     (case series_sum target of
        Inl e \<Rightarrow> Inl e
      | Inr total_failures \<Rightarrow> mode_loop d total_failures (len_df d) FAILURE_MODE_COLS))"

subsection \<open>Quantile-segmented failure rate\<close>

definition lerp_at :: "real list \<Rightarrow> real \<Rightarrow> real" where
  \<comment> \<open>Linear interpolation in a sorted list at the fractional position \<open>h\<close>.\<close>
  "lerp_at vs h =
     (let i = nat \<lfloor>h\<rfloor>; j = min (i + 1) (length vs - 1)
      in vs ! i + (vs ! j - vs ! i) * (h - real i))"

definition quantile :: "cell list \<Rightarrow> real \<Rightarrow> error + pyfloat" where
  \<comment> \<open>\<open>series.quantile(q)\<close>, linear interpolation: ValueError for \<open>q\<close> outside [0, 1],
      missing values skipped, NaN when no value is left.\<close>
  "quantile series q =
     (if q < 0 \<or> q > 1 then Inl ValueError
      else if has_text series then Inl TypeError
      else (let vs = sort (nums_of series) in
            if vs = [] then Inr None
            else Inr (Some (lerp_at vs (real (length vs - 1) * q)))))"

fun cell_le :: "cell \<Rightarrow> pyfloat \<Rightarrow> bool" where
  \<comment> \<open>\<open>x <= t\<close> on floats: False when either side is NaN.\<close>
  "cell_le (Num x) (Some t) = (x \<le> t)"
| "cell_le c t = False"

fun cell_ge :: "cell \<Rightarrow> pyfloat \<Rightarrow> bool" where
  "cell_ge (Num x) (Some t) = (x \<ge> t)"
| "cell_ge c t = False"

definition float_le :: "pyfloat \<Rightarrow> pyfloat \<Rightarrow> bool" where
  \<comment> \<open>\<open>a <= b\<close> on two floats.\<close>
  "float_le a b = (case (a, b) of (Some x, Some y) \<Rightarrow> x \<le> y | _ \<Rightarrow> False)"

datatype seg_label = LowLabel pyfloat | MediumLabel | HighLabel pyfloat

record segment_stats_row =
  segment :: seg_label
  s_count :: nat
  s_failure_count :: int
  s_failure_rate :: real
  s_failure_rate_pct :: real

definition segment_stats :: "dataframe \<Rightarrow> bool list \<Rightarrow> seg_label \<Rightarrow> error + segment_stats_row" where
  "segment_stats d msk label =
     (let subset = select_rows msk d; n = len_df subset in
      case get_col subset TARGET_COL of
        Inl e \<Rightarrow> Inl e
      | Inr target \<Rightarrow>
     (case series_sum target of
        Inl e \<Rightarrow> Inl e
      | Inr failures \<Rightarrow>
          (let rate = (if n > 0 then failures / real n else 0) in
           Inr \<lparr>segment = label, s_count = n, s_failure_count = py_int failures,
                s_failure_rate = rate, s_failure_rate_pct = rate * 100\<rparr>)))"

record quantile_rates =
  q_column :: string
  q_low :: real
  q_low_value :: pyfloat
  q_high :: real
  q_high_value :: pyfloat
  segments :: "segment_stats_row list"

definition compute_quantile_failure_rates ::
  "dataframe \<Rightarrow> string \<Rightarrow> real \<Rightarrow> real \<Rightarrow> error + quantile_rates" where
  "compute_quantile_failure_rates d column ql qh =
     (case get_col d column of
        Inl e \<Rightarrow> Inl e
      | Inr series \<Rightarrow>
     (case quantile series ql of
        Inl e \<Rightarrow> Inl e
      | Inr low_threshold \<Rightarrow>
     (case quantile series qh of
        Inl e \<Rightarrow> Inl e
      | Inr high_threshold \<Rightarrow>
          (let low_mask = map (\<lambda>c. cell_le c low_threshold) series;
               high_mask = map (\<lambda>c. cell_ge c high_threshold) series;
               mid_mask = map (\<lambda>(l, h). \<not> l \<and> \<not> h) (zip low_mask high_mask) in
           case segment_stats d low_mask (LowLabel low_threshold) of
             Inl e \<Rightarrow> Inl e
           | Inr low_seg \<Rightarrow>
          (case segment_stats d mid_mask MediumLabel of
             Inl e \<Rightarrow> Inl e
           | Inr mid_seg \<Rightarrow>
          (case segment_stats d high_mask (HighLabel high_threshold) of
             Inl e \<Rightarrow> Inl e
           | Inr high_seg \<Rightarrow>
               Inr \<lparr>q_column = column, q_low = ql, q_low_value = low_threshold,
                    q_high = qh, q_high_value = high_threshold,
                    segments = [low_seg, mid_seg, high_seg]\<rparr>))))))"

subsection \<open>Temperature delta statistics\<close>

definition series_mean :: "cell list \<Rightarrow> error + pyfloat" where
  "series_mean series =
     (if has_text series then Inl TypeError
      else case nums_of series of
             [] \<Rightarrow> Inr None
           | x # xs \<Rightarrow> Inr (Some (sum_list (x # xs) / real (length (x # xs)))))"

definition series_median :: "cell list \<Rightarrow> error + pyfloat" where
  "series_median series =
     (if has_text series then Inl TypeError
      else (let vs = sort (nums_of series); n = length vs in
            if n = 0 then Inr None
            else if odd n then Inr (Some (vs ! (n div 2)))
            else Inr (Some ((vs ! (n div 2 - 1) + vs ! (n div 2)) / 2))))"

definition series_std :: "cell list \<Rightarrow> error + pyfloat" where
  \<comment> \<open>The sample standard deviation (denominator \<open>n - 1\<close>); NaN below two values.\<close>
  "series_std series =
     (if has_text series then Inl TypeError
      else (let xs = nums_of series; n = length xs in
            if n < 2 then Inr None
            else (let m = sum_list xs / real n in
                  Inr (Some (sqrt (sum_list (map (\<lambda>x. (x - m)\<^sup>2) xs) / real (n - 1)))))))"

record overall_stats =
  o_mean :: pyfloat
  o_median :: pyfloat
  o_std :: pyfloat
  o_min :: pyfloat
  o_max :: pyfloat

record group_stats =
  g_count :: nat
  g_mean :: pyfloat
  g_median :: pyfloat
  g_std :: pyfloat

datatype temp_delta_stats =
    ErrorPayload string
  | Stats overall_stats group_stats group_stats

definition delta_col :: string where
  "delta_col = ''Temp_Delta [K]''"

definition overall_of :: "cell list \<Rightarrow> error + overall_stats" where
  "overall_of series =
     (case series_mean series of Inl e \<Rightarrow> Inl e | Inr a \<Rightarrow>
     (case series_median series of Inl e \<Rightarrow> Inl e | Inr b \<Rightarrow>
     (case series_std series of Inl e \<Rightarrow> Inl e | Inr c \<Rightarrow>
     (case series_min series of Inl e \<Rightarrow> Inl e | Inr lo \<Rightarrow>
     (case series_max series of Inl e \<Rightarrow> Inl e | Inr hi \<Rightarrow>
        Inr \<lparr>o_mean = a, o_median = b, o_std = c, o_min = lo, o_max = hi\<rparr>)))))"

definition group_of :: "cell list \<Rightarrow> error + group_stats" where
  "group_of series =
     (case series_mean series of Inl e \<Rightarrow> Inl e | Inr a \<Rightarrow>
     (case series_median series of Inl e \<Rightarrow> Inl e | Inr b \<Rightarrow>
     (case series_std series of Inl e \<Rightarrow> Inl e | Inr c \<Rightarrow>
        Inr \<lparr>g_count = length series, g_mean = a, g_median = b, g_std = c\<rparr>)))"

definition compute_temp_delta_stats :: "dataframe \<Rightarrow> error + temp_delta_stats" where
  "compute_temp_delta_stats d =
     (if delta_col \<notin> set (columns d) then
        Inr (ErrorPayload (''Column '' @ quote @ delta_col @ quote
                           @ '' not found. Run preprocessing first.''))
      else
        (case get_col d TARGET_COL of
           Inl e \<Rightarrow> Inl e
         | Inr target \<Rightarrow>
        (case get_col d delta_col of
           Inl e \<Rightarrow> Inl e
         | Inr delta \<Rightarrow>
            (let failed = select (map (\<lambda>c. c = Num 1) target) delta;
                 not_failed = select (map (\<lambda>c. c = Num 0) target) delta in
             case overall_of delta of Inl e \<Rightarrow> Inl e | Inr ov \<Rightarrow>
            (case group_of failed of Inl e \<Rightarrow> Inl e | Inr gf \<Rightarrow>
            (case group_of not_failed of Inl e \<Rightarrow> Inl e | Inr gn \<Rightarrow>
               Inr (Stats ov gf gn)))))))"

section \<open>Preprocessing (preprocess.py)\<close>








definition assign_category :: "pyfloat \<Rightarrow> pyfloat \<Rightarrow> cell \<Rightarrow> string" where
  "assign_category low_val high_val x =
     (if cell_le x low_val then ''Low''
      else if cell_ge x high_val then ''High''
      else ''Medium'')"

definition categorize_by_quantiles :: "cell list \<Rightarrow> real \<Rightarrow> real \<Rightarrow> error + string list" where
  "categorize_by_quantiles series ql qh =
     (case quantile series ql of
        Inl e \<Rightarrow> Inl e
      | Inr low_val \<Rightarrow>
     (case quantile series qh of
        Inl e \<Rightarrow> Inl e
      | Inr high_val \<Rightarrow> Inr (map (assign_category low_val high_val) series)))"

section \<open>Example datasets and notions used in the statements\<close>

definition empty_dataset :: dataframe where
  \<comment> \<open>Every required column, no rows: a CSV file that holds only its header line.\<close>
  "empty_dataset = \<lparr>index = [], cols = map (\<lambda>c. (c, [])) REQUIRED_COLUMNS\<rparr>"

definition with_notes :: dataframe where
  "with_notes = \<lparr>index = [], cols = cols empty_dataset @ [(''Notes'', [])]\<rparr>"

definition without_type :: dataframe where
  "without_type = \<lparr>index = [], cols = filter (\<lambda>p. fst p \<noteq> ''Type'') (cols empty_dataset)\<rparr>"

definition torque_rule :: range_rule where
  "torque_rule = \<lparr>minimum = Some 0, maximum = None, strict_positive = False\<rparr>"

definition torque_frame :: dataframe where
  "torque_frame = \<lparr>index = [0, 1, 2], cols = [(''Torque [Nm]'', [Num 40, Num (- 1), NaN])]\<rparr>"

definition text_free :: "dataframe \<Rightarrow> (string \<times> range_rule) list \<Rightarrow> bool" where
  \<comment> \<open>No range-checked column that is present holds a text value.\<close>
  "text_free d rules =
     list_all (\<lambda>p. case map_of (cols d) (fst p) of None \<Rightarrow> True | Some s \<Rightarrow> \<not> has_text s) rules"

definition text_torque :: dataframe where
  "text_torque = \<lparr>index = [0], cols = [(''Torque [Nm]'', [Str ''high''])]\<rparr>"

definition stale_validator :: validator where
  \<comment> \<open>A validator that still holds a result of an earlier run.\<close>
  "stale_validator = \<lparr>df = torque_frame, results = [required_columns_result empty_dataset]\<rparr>"

definition target_only :: dataframe where
  "target_only = \<lparr>index = [0], cols = [(''Machine failure'', [Num 0])]\<rparr>"

definition delta_only :: dataframe where
  "delta_only = \<lparr>index = [0], cols = [(''Temp_Delta [K]'', [Num 10])]\<rparr>"

definition delta_frame :: dataframe where
  "delta_frame = \<lparr>index = [0, 1, 2],
      cols = [(''Machine failure'', [Num 0, Num 1, Num 0]), (''Temp_Delta [K]'', [Num 10, Num 12, NaN])]\<rparr>"

fun cell_gt :: "cell \<Rightarrow> pyfloat \<Rightarrow> bool" where
  \<comment> \<open>\<open>x > t\<close> on floats: False when either side is NaN.\<close>
  "cell_gt (Num x) (Some t) = (x > t)"
| "cell_gt c t = False"

definition six_values :: "cell list" where
  "six_values = [Num 1, Num 2, Num 3, Num 4, Num 5, Num 100]"

definition tied_frame :: dataframe where
  "tied_frame = \<lparr>index = [0, 1, 2],
      cols = [(''Torque [Nm]'', [Num 5, Num 5, Num 5]),
              (''Machine failure'', [Num 1, Num 0, Num 1])]\<rparr>"




definition unknown_type :: dataframe where
  "unknown_type = \<lparr>index = [0, 1, 2],
      cols = [(''Type'', [Str ''X'', Str ''M'', Str ''L'']),
              (''Machine failure'', [Num 1, Num 0, Num 1])]\<rparr>"

definition order_key :: "cell \<Rightarrow> nat" where
  \<comment> \<open>The sort key of a Type value that has one.\<close>
  "order_key k = (case type_order k of Some n \<Rightarrow> n | None \<Rightarrow> 0)"

definition without_udi :: dataframe where
  "without_udi = \<lparr>index = [], cols = filter (\<lambda>p. fst p \<noteq> ''UDI'') (cols empty_dataset)\<rparr>"

definition without_udi_type :: dataframe where
  "without_udi_type = \<lparr>index = [], cols = filter (\<lambda>p. fst p \<noteq> ''Type'') (cols without_udi)\<rparr>"

definition wrap64 :: "int \<Rightarrow> int" where
  \<comment> \<open>The signed 64-bit integer that an integer wraps around to.\<close>
  "wrap64 i = (i + 2 ^ 63) mod 2 ^ 64 - 2 ^ 63"

definition int64_sub :: "int \<Rightarrow> int \<Rightarrow> int" where
  \<comment> \<open>The difference of two int64 values as NumPy computes it.\<close>
  "int64_sub p a = wrap64 (p - a)"



section \<open>Basic facts\<close>

lemma map_of_cols_None: "(map_of (cols d) c = None) = (c \<notin> set (columns d))"
  by (simp add: columns_def map_of_eq_None_iff)

lemma series_min_Min:
  "\<not> has_text series \<Longrightarrow>
     series_min series = Inr (if nums_of series = [] then None else Some (Min (set (nums_of series))))"
  by (cases "nums_of series") (simp_all add: series_min_def Min.set_eq_fold del: set_simps)

lemma series_max_Max:
  "\<not> has_text series \<Longrightarrow>
     series_max series = Inr (if nums_of series = [] then None else Some (Max (set (nums_of series))))"
  by (cases "nums_of series") (simp_all add: series_max_def Max.set_eq_fold del: set_simps)

section \<open>Required Columns\<close>

lemma set_missing_required:
  "set (missing_required d) = set REQUIRED_COLUMNS - set (columns d)"
  by (auto simp: missing_required_def)

lemma distinct_missing_required: "distinct (missing_required d)"
  by (simp add: missing_required_def)

lemma required_status:
  "status (required_columns_result d) =
     (if set REQUIRED_COLUMNS \<subseteq> set (columns d) then PASS else FAIL)"
proof -
  have "(missing_required d = []) = (set REQUIRED_COLUMNS \<subseteq> set (columns d))"
    using set_missing_required [of d] by (metis Diff_eq_empty_iff set_empty)
  then show ?thesis by (simp add: required_columns_result_def Let_def)
qed

lemma missing_required_cong:
  "set (columns d') \<inter> set REQUIRED_COLUMNS = set (columns d) \<inter> set REQUIRED_COLUMNS
     \<Longrightarrow> missing_required d' = missing_required d"
  unfolding missing_required_def
  by (rule filter_cong) auto

text \<open>
  C6 (as amended). The Required Columns check looks only at the required names among
  the columns.
  A frame \<open>d1\<close> that has the columns of \<open>d\<close> and one more column \<open>c\<close> that is not
  required gets the very result \<open>d\<close> gets, so its status never turns to FAIL. A frame
  \<open>d2\<close> that has the columns of \<open>d\<close> but for a nonempty set \<open>S\<close> of required columns
  gets FAIL, and its \<open>missing_columns\<close> detail lists, without repetition, the names of
  \<open>S\<close> together with the names \<open>d\<close> already lacked: exactly the names of \<open>S\<close> when
  \<open>d\<close> passes the check. (Python leaves the order of the listed names open.)
\<close>

theorem required_columns_add_remove:
  "(c \<notin> set REQUIRED_COLUMNS \<and> set (columns d1) = insert c (set (columns d))
      \<longrightarrow> required_columns_result d1 = required_columns_result d)
   \<and> (S \<noteq> {} \<and> S \<subseteq> set REQUIRED_COLUMNS \<and> S \<subseteq> set (columns d)
       \<and> set (columns d2) = set (columns d) - S
      \<longrightarrow> status (required_columns_result d2) = FAIL
          \<and> details (required_columns_result d2)
              = [(''missing_columns'', DNames (missing_required d2))]
          \<and> distinct (missing_required d2)
          \<and> set (missing_required d2) = S \<union> set (missing_required d)
          \<and> (status (required_columns_result d) = PASS \<longrightarrow> set (missing_required d2) = S))"
proof (intro conjI impI)
  assume a: "c \<notin> set REQUIRED_COLUMNS \<and> set (columns d1) = insert c (set (columns d))"
  then have "missing_required d1 = missing_required d"
    by (intro missing_required_cong) auto
  then show "required_columns_result d1 = required_columns_result d"
    by (simp add: required_columns_result_def)
next
  assume b: "S \<noteq> {} \<and> S \<subseteq> set REQUIRED_COLUMNS \<and> S \<subseteq> set (columns d)
       \<and> set (columns d2) = set (columns d) - S"
  then have m: "set (missing_required d2) = S \<union> set (missing_required d)"
    by (auto simp: set_missing_required)
  with b have ne: "missing_required d2 \<noteq> []" by auto
  show "status (required_columns_result d2) = FAIL"
    using ne by (simp add: required_columns_result_def Let_def)
  show "details (required_columns_result d2) = [(''missing_columns'', DNames (missing_required d2))]"
    using ne by (simp add: required_columns_result_def Let_def)
  show "distinct (missing_required d2)" by (rule distinct_missing_required)
  show "set (missing_required d2) = S \<union> set (missing_required d)" by (rule m)
  assume "status (required_columns_result d) = PASS"
  then have "set (missing_required d) = {}"
    by (simp add: required_status set_missing_required split: if_splits)
  with m show "set (missing_required d2) = S" by simp
qed

theorem required_columns_add_remove_witness:
  "''Notes'' \<notin> set REQUIRED_COLUMNS
   \<and> set (columns with_notes) = insert ''Notes'' (set (columns empty_dataset))
   \<and> required_columns_result with_notes = required_columns_result empty_dataset
   \<and> status (required_columns_result empty_dataset) = PASS
   \<and> {''Type''} \<subseteq> set REQUIRED_COLUMNS \<and> {''Type''} \<subseteq> set (columns empty_dataset)
   \<and> set (columns without_type) = set (columns empty_dataset) - {''Type''}
   \<and> status (required_columns_result without_type) = FAIL
   \<and> set (missing_required without_type) = {''Type''}"
proof -
  have a: "''Notes'' \<notin> set REQUIRED_COLUMNS"
    by (simp add: REQUIRED_COLUMNS_def)
  have b: "set (columns with_notes) = insert ''Notes'' (set (columns empty_dataset))"
    by (simp add: with_notes_def columns_def)
  have c: "{''Type''} \<subseteq> set REQUIRED_COLUMNS"
    by (simp add: REQUIRED_COLUMNS_def)
  have d: "{''Type''} \<subseteq> set (columns empty_dataset)"
    by (simp add: columns_def empty_dataset_def REQUIRED_COLUMNS_def)
  have e: "set (columns without_type) = set (columns empty_dataset) - {''Type''}"
    by (auto simp: columns_def without_type_def)
  have f: "status (required_columns_result empty_dataset) = PASS"
    by (simp add: required_columns_result_def missing_required_def columns_def empty_dataset_def
        REQUIRED_COLUMNS_def)
  have g: "{''Type''} \<noteq> ({} :: string set)"
    by simp
  show ?thesis
    using required_columns_add_remove
      [of "''Notes''" with_notes empty_dataset "{''Type''}" without_type] a b c d e f g
    by blast
qed

text \<open>
  C6 as stated fails on a dataset that already lacks a required column: from the
  dataset without \<open>UDI\<close>, removing \<open>Type\<close> gives a \<open>missing_columns\<close> detail that lists
  \<open>UDI\<close> and \<open>Type\<close>, not the removed name alone.
\<close>

theorem required_columns_already_missing_counterexample:
  "{''Type''} \<subseteq> set REQUIRED_COLUMNS \<and> {''Type''} \<subseteq> set (columns without_udi)
   \<and> set (columns without_udi_type) = set (columns without_udi) - {''Type''}
   \<and> status (required_columns_result without_udi_type) = FAIL
   \<and> details (required_columns_result without_udi_type)
       = [(''missing_columns'', DNames (missing_required without_udi_type))]
   \<and> set (missing_required without_udi_type) = {''UDI'', ''Type''}
   \<and> set (missing_required without_udi_type) \<noteq> {''Type''}"
proof -
  have c: "columns without_udi_type
      = [''Product ID'', ''Air temperature [K]'', ''Process temperature [K]'',
         ''Rotational speed [rpm]'', ''Torque [Nm]'', ''Tool wear [min]'', ''Machine failure'',
         ''TWF'', ''HDF'', ''PWF'', ''OSF'', ''RNF'']"
    by (simp add: columns_def without_udi_type_def without_udi_def empty_dataset_def
        REQUIRED_COLUMNS_def)
  have u: "columns without_udi
      = [''Product ID'', ''Type'', ''Air temperature [K]'', ''Process temperature [K]'',
         ''Rotational speed [rpm]'', ''Torque [Nm]'', ''Tool wear [min]'', ''Machine failure'',
         ''TWF'', ''HDF'', ''PWF'', ''OSF'', ''RNF'']"
    by (simp add: columns_def without_udi_def empty_dataset_def REQUIRED_COLUMNS_def)
  have m: "missing_required without_udi_type = [''UDI'', ''Type'']"
    by (simp add: missing_required_def c REQUIRED_COLUMNS_def)
  have s1: "{''Type''} \<subseteq> set REQUIRED_COLUMNS"
    by (simp add: REQUIRED_COLUMNS_def)
  have s2: "{''Type''} \<subseteq> set (columns without_udi)"
    by (simp add: u)
  have s3: "set (columns without_udi_type) = set (columns without_udi) - {''Type''}"
    unfolding c u by auto
  have s4: "status (required_columns_result without_udi_type) = FAIL"
    "details (required_columns_result without_udi_type)
       = [(''missing_columns'', DNames (missing_required without_udi_type))]"
    by (simp_all add: required_columns_result_def m Let_def)
  have s5: "set (missing_required without_udi_type) = {''UDI'', ''Type''}"
    by (simp add: m)
  have s6: "set (missing_required without_udi_type) \<noteq> {''Type''}"
    unfolding s5 by auto
  from s1 s2 s3 s4 s5 s6 show ?thesis by blast
qed

section \<open>Numeric Range\<close>



section \<open>Failure mode counts on a dataset without rows\<close>

text \<open>
  C5. On the dataset that has every required column and no rows,
  \<open>compute_failure_mode_counts\<close> raises ZeroDivisionError: the percentage of total
  records divides by the row count without the guard that the other divisions have.
\<close>

theorem failure_mode_counts_empty_dataset:
  "compute_failure_mode_counts empty_dataset = Inl ZeroDivisionError"
  by (simp add: compute_failure_mode_counts_def empty_dataset_def REQUIRED_COLUMNS_def
      FAILURE_MODE_COLS_def TARGET_COL_def get_col_def series_sum_def has_text_def len_df_def
      py_int_def)

section \<open>The battery of checks\<close>

lemma range_check_present_returns:
  "\<not> has_text series \<Longrightarrow>
     \<exists>r. range_check_present col rules series = Inr r \<and> check_name r = ''Range Check: '' @ col"
  by (simp add: range_check_present_def min_violations_def max_violations_def
       count_where_def series_min_Min series_max_Max Let_def del: str_nat.simps
       split: option.splits)

lemma range_check_returns:
  "(case map_of (cols d) col of None \<Rightarrow> True | Some s \<Rightarrow> \<not> has_text s) \<Longrightarrow>
     \<exists>r. range_check d col rules = Inr r \<and> check_name r = ''Range Check: '' @ col"
  using range_check_present_returns [of _ col rules]
  by (auto simp: range_check_def split: option.splits)

lemma range_loop_returns:
  "text_free (df v) rules \<Longrightarrow>
     \<exists>rs. range_loop rules acc v = Inr (acc @ rs, v\<lparr>results := results v @ rs\<rparr>)
        \<and> map check_name rs = map (\<lambda>p. ''Range Check: '' @ fst p) rules
        \<and> list_all2 (\<lambda>p r. range_check (df v) (fst p) (snd p) = Inr r) rules rs"
proof (induction rules arbitrary: acc v)
  case Nil
  then show ?case by simp
next
  case (Cons p rules)
  obtain col rl where p: "p = (col, rl)" by (cases p)
  from Cons.prems
  have here: "case map_of (cols (df v)) col of None \<Rightarrow> True | Some s \<Rightarrow> \<not> has_text s"
    and rest: "text_free (df v) rules"
    by (simp_all add: text_free_def p)
  from range_check_returns [OF here, of rl]
  obtain r where r: "range_check (df v) col rl = Inr r" "check_name r = ''Range Check: '' @ col"
    by blast
  have dfv: "df (append_result v r) = df v" by (simp add: append_result_def)
  from Cons.IH [of "append_result v r" "acc @ [r]"] rest dfv
  obtain rs where rs: "range_loop rules (acc @ [r]) (append_result v r)
        = Inr ((acc @ [r]) @ rs,
               (append_result v r)\<lparr>results := results (append_result v r) @ rs\<rparr>)"
    "map check_name rs = map (\<lambda>p. ''Range Check: '' @ fst p) rules"
    "list_all2 (\<lambda>p r. range_check (df v) (fst p) (snd p) = Inr r) rules rs"
    by auto
  show ?case
    apply (rule exI [of _ "r # rs"])
    using r rs by (simp add: p append_result_def)
qed

text \<open>
  C1 (as amended). For every validator whose dataset holds no text value in a
  range-checked column that is present, \<open>run_all_checks\<close> returns, and the list it
  returns is the validator's new result list. Whatever the result list held before, the
  new list is: the Required Columns result, the Type Domain result, one Numeric Range
  result per rule of \<open>VALIDATION_RULES\<close> in the order of the rules, the Binary Flags
  result, the Failure Consistency result and the Null Values result. It has as many
  entries as there are rules plus five: 10 with the shipped rules.
\<close>

theorem run_all_checks_results:
  assumes "text_free (df v) VALIDATION_RULES"
  shows "\<exists>ranges v'. run_all_checks v = Inr (results v', v') \<and> df v' = df v
     \<and> results v' = [required_columns_result (df v), type_domain_result (df v)] @ ranges
                     @ [binary_flags_result (df v), failure_consistency_result (df v),
                        null_values_result (df v)]
     \<and> list_all2 (\<lambda>p r. range_check (df v) (fst p) (snd p) = Inr r) VALIDATION_RULES ranges
     \<and> map check_name (results v')
         = [''Required Columns'', ''Type Domain'']
           @ map (\<lambda>p. ''Range Check: '' @ fst p) VALIDATION_RULES
           @ [''Binary Flags'', ''Failure Consistency'', ''Null Values'']
     \<and> length (results v') = length VALIDATION_RULES + 5
     \<and> length (results v') = 10"
proof -
  define v2 where
    "v2 = snd (check_type_domain (snd (check_required_columns (v\<lparr>results := []\<rparr>))))"
  have df2: "df v2 = df v"
    by (simp add: v2_def check_type_domain_def check_required_columns_def append_result_def Let_def)
  have res2: "results v2 = [required_columns_result (df v), type_domain_result (df v)]"
    by (simp add: v2_def check_type_domain_def check_required_columns_def append_result_def Let_def)
  from range_loop_returns [of v2 VALIDATION_RULES "[]"] assms df2
  obtain rs where
    rs: "range_loop VALIDATION_RULES [] v2 = Inr (rs, v2\<lparr>results := results v2 @ rs\<rparr>)"
    "map check_name rs = map (\<lambda>p. ''Range Check: '' @ fst p) VALIDATION_RULES"
    "list_all2 (\<lambda>p r. range_check (df v) (fst p) (snd p) = Inr r) VALIDATION_RULES rs"
    by auto
  have len: "length rs = length VALIDATION_RULES"
    using rs(3) by (simp add: list_all2_lengthD)
  have names: "check_name (required_columns_result (df v)) = ''Required Columns''"
    "check_name (type_domain_result (df v)) = ''Type Domain''"
    "check_name (binary_flags_result (df v)) = ''Binary Flags''"
    "check_name (failure_consistency_result (df v)) = ''Failure Consistency''"
    "check_name (null_values_result (df v)) = ''Null Values''"
    by (simp_all add: required_columns_result_def type_domain_result_def binary_flags_result_def
        failure_consistency_result_def null_values_result_def Let_def split: option.splits)
  define v6 where "v6 = v2\<lparr>results := results v2 @ rs
      @ [binary_flags_result (df v), failure_consistency_result (df v),
         null_values_result (df v)]\<rparr>"
  have run: "run_all_checks v = Inr (results v6, v6)"
    using rs(1) df2
    by (simp add: run_all_checks_def Let_def v2_def [symmetric] check_numeric_ranges_def
        check_binary_flags_def check_failure_consistency_def check_null_values_def
        append_result_def v6_def)
  show ?thesis
    apply (rule exI [of _ rs])
    apply (rule exI [of _ v6])
    using run rs(2,3) len names
    by (simp add: v6_def df2 res2 VALIDATION_RULES_def)
qed

theorem run_all_checks_results_witness:
  "text_free (df stale_validator) VALIDATION_RULES
   \<and> length (results stale_validator) = 1
   \<and> (\<exists>v'. run_all_checks stale_validator = Inr (results v', v') \<and> length (results v') = 10)"
proof -
  have h: "text_free (df stale_validator) VALIDATION_RULES"
    by (simp add: text_free_def stale_validator_def torque_frame_def VALIDATION_RULES_def
        has_text_def)
  have l: "length (results stale_validator) = 1"
    by (simp add: stale_validator_def)
  from run_all_checks_results [OF h] h l show ?thesis by blast
qed

text \<open>
  C1 as stated fails on a dataset whose torque column holds text: comparing a text value
  with the bound raises TypeError, and the battery returns no result list.
\<close>

theorem run_all_checks_text_counterexample:
  "run_all_checks \<lparr>df = text_torque, results = []\<rparr> = Inl TypeError"
  by (simp add: run_all_checks_def Let_def check_numeric_ranges_def VALIDATION_RULES_def
      check_required_columns_def check_type_domain_def append_result_def text_torque_def
      range_check_def range_check_present_def min_violations_def count_where_def has_text_def)

section \<open>Checks on absent columns\<close>

lemma is_binary_unique:
  "is_binary (unique s) = (\<forall>x\<in>set s. x = Num 0 \<or> x = Num 1)"
  by (simp add: is_binary_def unique_def list_all_iff)

lemma non_binary_loop_empty:
  "(non_binary_loop d cs = []) =
     (\<forall>c\<in>set cs. \<forall>s. map_of (cols d) c = Some s \<longrightarrow> (\<forall>x\<in>set s. x = Num 0 \<or> x = Num 1))"
  by (induction cs) (auto simp: Let_def is_binary_unique split: option.splits)

lemma binary_flags_status:
  "status (binary_flags_result d) =
     (if non_binary_loop d (TARGET_COL # FAILURE_MODE_COLS) = [] then PASS else FAIL)"
  by (simp add: binary_flags_result_def Let_def)

lemma inconsistent_loop_absent:
  "list_all (\<lambda>c. c \<notin> set (columns d)) cs \<Longrightarrow> inconsistent_loop d target cs = []"
  by (induction cs) (auto simp: map_of_cols_None [symmetric])

text \<open>
  C2 (as amended). What each check does when a column it reads is absent, on every
  dataset. A Numeric Range sub-check whose column is absent returns WARN. Failure
  Consistency returns WARN when the target column is absent; it skips failure-mode
  columns that are absent, so with the target present and every failure-mode column
  absent it returns PASS. Required Columns returns FAIL when a required column is
  absent, and Type Domain returns FAIL when the Type column is absent. Binary Flags
  never returns WARN: it skips the flag columns that are absent, returns FAIL when a
  flag column that is present holds a value other than 0 or 1 and PASS otherwise, so it
  returns PASS when the target and every failure-mode column are absent.
\<close>

theorem missing_column_policy:
  "(col \<notin> set (columns d) \<longrightarrow> (\<exists>r. range_check d col rules = Inr r \<and> status r = WARN))
   \<and> (TARGET_COL \<notin> set (columns d) \<longrightarrow> status (failure_consistency_result d) = WARN)
   \<and> (TARGET_COL \<in> set (columns d) \<and> list_all (\<lambda>c. c \<notin> set (columns d)) FAILURE_MODE_COLS
        \<longrightarrow> status (failure_consistency_result d) = PASS)
   \<and> (\<not> set REQUIRED_COLUMNS \<subseteq> set (columns d) \<longrightarrow> status (required_columns_result d) = FAIL)
   \<and> (''Type'' \<notin> set (columns d) \<longrightarrow> status (type_domain_result d) = FAIL)
   \<and> status (binary_flags_result d) \<noteq> WARN
   \<and> status (binary_flags_result d) =
       (if \<forall>c\<in>set (TARGET_COL # FAILURE_MODE_COLS). \<forall>s. map_of (cols d) c = Some s
              \<longrightarrow> (\<forall>x\<in>set s. x = Num 0 \<or> x = Num 1)
        then PASS else FAIL)
   \<and> (list_all (\<lambda>c. c \<notin> set (columns d)) (TARGET_COL # FAILURE_MODE_COLS)
        \<longrightarrow> status (binary_flags_result d) = PASS)"
proof (intro conjI impI)
  assume "col \<notin> set (columns d)"
  then show "\<exists>r. range_check d col rules = Inr r \<and> status r = WARN"
    by (simp add: range_check_def map_of_cols_None [symmetric])
next
  assume "TARGET_COL \<notin> set (columns d)"
  then show "status (failure_consistency_result d) = WARN"
    by (simp add: failure_consistency_result_def map_of_cols_None [symmetric])
next
  assume a: "TARGET_COL \<in> set (columns d) \<and> list_all (\<lambda>c. c \<notin> set (columns d)) FAILURE_MODE_COLS"
  then obtain t where "map_of (cols d) TARGET_COL = Some t"
    using map_of_cols_None [of d TARGET_COL] by auto
  with a show "status (failure_consistency_result d) = PASS"
    by (simp add: failure_consistency_result_def inconsistent_loop_absent Let_def)
next
  assume "\<not> set REQUIRED_COLUMNS \<subseteq> set (columns d)"
  then show "status (required_columns_result d) = FAIL"
    by (simp add: required_status)
next
  assume "''Type'' \<notin> set (columns d)"
  then show "status (type_domain_result d) = FAIL"
    by (simp add: type_domain_result_def map_of_cols_None [symmetric])
next
  show "status (binary_flags_result d) \<noteq> WARN"
    by (simp add: binary_flags_status)
next
  show "status (binary_flags_result d) =
       (if \<forall>c\<in>set (TARGET_COL # FAILURE_MODE_COLS). \<forall>s. map_of (cols d) c = Some s
              \<longrightarrow> (\<forall>x\<in>set s. x = Num 0 \<or> x = Num 1)
        then PASS else FAIL)"
    unfolding binary_flags_status non_binary_loop_empty ..
next
  assume "list_all (\<lambda>c. c \<notin> set (columns d)) (TARGET_COL # FAILURE_MODE_COLS)"
  then have "non_binary_loop d (TARGET_COL # FAILURE_MODE_COLS) = []"
    unfolding non_binary_loop_empty
    by (auto simp: list_all_iff map_of_cols_None [symmetric] simp del: set_simps)
  then show "status (binary_flags_result d) = PASS"
    by (simp add: binary_flags_status)
qed

theorem missing_column_policy_witness:
  "''Tool wear [min]'' \<notin> set (columns torque_frame)
   \<and> (\<exists>r. range_check torque_frame ''Tool wear [min]'' torque_rule = Inr r \<and> status r = WARN)
   \<and> TARGET_COL \<notin> set (columns torque_frame)
   \<and> status (failure_consistency_result torque_frame) = WARN
   \<and> TARGET_COL \<in> set (columns target_only)
   \<and> list_all (\<lambda>c. c \<notin> set (columns target_only)) FAILURE_MODE_COLS
   \<and> status (failure_consistency_result target_only) = PASS
   \<and> \<not> set REQUIRED_COLUMNS \<subseteq> set (columns torque_frame)
   \<and> status (required_columns_result torque_frame) = FAIL
   \<and> ''Type'' \<notin> set (columns torque_frame)
   \<and> status (type_domain_result torque_frame) = FAIL
   \<and> list_all (\<lambda>c. c \<notin> set (columns torque_frame)) (TARGET_COL # FAILURE_MODE_COLS)
   \<and> status (binary_flags_result torque_frame) = PASS"
proof -
  note t = missing_column_policy [of "''Tool wear [min]''" torque_frame torque_rule]
  note u = missing_column_policy [of "''Tool wear [min]''" target_only torque_rule]
  have a1: "''Tool wear [min]'' \<notin> set (columns torque_frame)"
    by (simp add: columns_def torque_frame_def)
  have a2: "TARGET_COL \<notin> set (columns torque_frame)"
    by (simp add: columns_def torque_frame_def TARGET_COL_def)
  have a3: "TARGET_COL \<in> set (columns target_only)
            \<and> list_all (\<lambda>c. c \<notin> set (columns target_only)) FAILURE_MODE_COLS"
    by (simp add: columns_def target_only_def TARGET_COL_def FAILURE_MODE_COLS_def)
  have a4: "\<not> set REQUIRED_COLUMNS \<subseteq> set (columns torque_frame)"
    by (simp add: columns_def torque_frame_def REQUIRED_COLUMNS_def)
  have a5: "''Type'' \<notin> set (columns torque_frame)"
    by (simp add: columns_def torque_frame_def)
  have a6: "list_all (\<lambda>c. c \<notin> set (columns torque_frame)) (TARGET_COL # FAILURE_MODE_COLS)"
    by (simp add: columns_def torque_frame_def TARGET_COL_def FAILURE_MODE_COLS_def)
  note c1 = t [THEN conjunct1, THEN mp, OF a1]
  note c2 = t [THEN conjunct2, THEN conjunct1, THEN mp, OF a2]
  note c3 = u [THEN conjunct2, THEN conjunct2, THEN conjunct1, THEN mp, OF a3]
  note c4 = t [THEN conjunct2, THEN conjunct2, THEN conjunct2, THEN conjunct1, THEN mp, OF a4]
  note c5 = t [THEN conjunct2, THEN conjunct2, THEN conjunct2, THEN conjunct2, THEN conjunct1,
               THEN mp, OF a5]
  note c6 = t [THEN conjunct2, THEN conjunct2, THEN conjunct2, THEN conjunct2, THEN conjunct2,
               THEN conjunct2, THEN conjunct2, THEN mp, OF a6]
  from a1 c1 a2 c2 a3 c3 a4 c4 a5 c5 a6 c6 show ?thesis by blast
qed

text \<open>
  C2 as stated fails for Binary Flags: on a dataset without the target column (and
  without any failure-mode column) the check returns PASS, not WARN.
\<close>

theorem binary_flags_absent_counterexample:
  "TARGET_COL \<notin> set (columns torque_frame) \<and> status (binary_flags_result torque_frame) = PASS"
  by (simp add: columns_def torque_frame_def TARGET_COL_def binary_flags_result_def
       FAILURE_MODE_COLS_def Let_def)

section \<open>Temperature delta statistics\<close>

lemma has_text_select: "\<not> has_text s \<Longrightarrow> \<not> has_text (select m s)"
  by (auto simp: has_text_def select_def list_ex_iff dest: set_zip_rightD)

lemma length_select_map:
  "length xs = length ys \<Longrightarrow> length (select (map p xs) ys) = length (filter p xs)"
  by (induction xs ys rule: list_induct2) (simp_all add: select_def)

lemma overall_of_returns: "\<not> has_text s \<Longrightarrow> \<exists>ov. overall_of s = Inr ov"
  by (simp add: overall_of_def series_mean_def series_median_def series_std_def
      series_min_Min series_max_Max Let_def split: list.splits)

lemma group_of_returns: "\<not> has_text s \<Longrightarrow> \<exists>g. group_of s = Inr g \<and> g_count g = length s"
  by (simp add: group_of_def series_mean_def series_median_def series_std_def
      Let_def split: list.splits)

text \<open>
  C7 (as amended). On every dataset without the temperature-delta column,
  \<open>compute_temp_delta_stats\<close> returns the error payload with its message and raises
  nothing. When the column is present, the target column is present as well and the
  delta column holds numbers or missing values, it returns the statistics: the overall
  statistics of the column and the statistics of the failed and the not-failed rows,
  whose counts are the numbers of rows with target 1 and with target 0. When the column
  is present and the target column is not, it raises KeyError.
\<close>

theorem temp_delta_stats_cases:
  "(delta_col \<notin> set (columns d) \<longrightarrow>
      compute_temp_delta_stats d
        = Inr (ErrorPayload (''Column '' @ quote @ delta_col @ quote
                             @ '' not found. Run preprocessing first.'')))
   \<and> (delta_col \<in> set (columns d) \<and> TARGET_COL \<notin> set (columns d) \<longrightarrow>
        compute_temp_delta_stats d = Inl KeyError)
   \<and> (map_of (cols d) delta_col = Some delta \<and> map_of (cols d) TARGET_COL = Some target
        \<and> \<not> has_text delta \<and> length target = length delta \<longrightarrow>
        (\<exists>ov gf gn. compute_temp_delta_stats d = Inr (Stats ov gf gn)
           \<and> overall_of delta = Inr ov
           \<and> g_count gf = length (filter (\<lambda>c. c = Num 1) target)
           \<and> g_count gn = length (filter (\<lambda>c. c = Num 0) target)))"
proof (intro conjI impI)
  assume "delta_col \<notin> set (columns d)"
  then show "compute_temp_delta_stats d
        = Inr (ErrorPayload (''Column '' @ quote @ delta_col @ quote
                             @ '' not found. Run preprocessing first.''))"
    by (simp add: compute_temp_delta_stats_def)
next
  assume "delta_col \<in> set (columns d) \<and> TARGET_COL \<notin> set (columns d)"
  then show "compute_temp_delta_stats d = Inl KeyError"
    by (simp add: compute_temp_delta_stats_def get_col_def map_of_cols_None [symmetric])
next
  assume a: "map_of (cols d) delta_col = Some delta \<and> map_of (cols d) TARGET_COL = Some target
        \<and> \<not> has_text delta \<and> length target = length delta"
  then have present: "delta_col \<in> set (columns d)"
    using map_of_cols_None [of d delta_col, symmetric] by simp
  from a obtain ov where ov: "overall_of delta = Inr ov"
    using overall_of_returns by blast
  from a obtain gf where gf: "group_of (select (map (\<lambda>c. c = Num 1) target) delta) = Inr gf"
    "g_count gf = length (select (map (\<lambda>c. c = Num 1) target) delta)"
    using group_of_returns [OF has_text_select] by blast
  from a obtain gn where gn: "group_of (select (map (\<lambda>c. c = Num 0) target) delta) = Inr gn"
    "g_count gn = length (select (map (\<lambda>c. c = Num 0) target) delta)"
    using group_of_returns [OF has_text_select] by blast
  have "compute_temp_delta_stats d = Inr (Stats ov gf gn)"
    using a present ov gf(1) gn(1) by (simp add: compute_temp_delta_stats_def get_col_def Let_def)
  then show "\<exists>ov gf gn. compute_temp_delta_stats d = Inr (Stats ov gf gn)
           \<and> overall_of delta = Inr ov
           \<and> g_count gf = length (filter (\<lambda>c. c = Num 1) target)
           \<and> g_count gn = length (filter (\<lambda>c. c = Num 0) target)"
    using ov gf(2) gn(2) a by (simp add: length_select_map)
qed

theorem temp_delta_stats_cases_witness:
  "delta_col \<notin> set (columns torque_frame)
   \<and> compute_temp_delta_stats torque_frame
        = Inr (ErrorPayload (''Column '' @ quote @ delta_col @ quote
                             @ '' not found. Run preprocessing first.''))
   \<and> delta_col \<in> set (columns delta_only) \<and> TARGET_COL \<notin> set (columns delta_only)
   \<and> map_of (cols delta_frame) delta_col = Some [Num 10, Num 12, NaN]
   \<and> map_of (cols delta_frame) TARGET_COL = Some [Num 0, Num 1, Num 0]
   \<and> \<not> has_text [Num 10, Num 12, NaN]
   \<and> (\<exists>ov gf gn. compute_temp_delta_stats delta_frame = Inr (Stats ov gf gn)
          \<and> g_count gf = 1 \<and> g_count gn = 2)"
proof -
  have a1: "delta_col \<notin> set (columns torque_frame)"
    by (simp add: delta_col_def columns_def torque_frame_def)
  have a2: "delta_col \<in> set (columns delta_only) \<and> TARGET_COL \<notin> set (columns delta_only)"
    by (simp add: delta_col_def columns_def delta_only_def TARGET_COL_def)
  have a3: "map_of (cols delta_frame) delta_col = Some [Num 10, Num 12, NaN]
     \<and> map_of (cols delta_frame) TARGET_COL = Some [Num 0, Num 1, Num 0]
     \<and> \<not> has_text [Num 10, Num 12, NaN]
     \<and> length [Num 0, Num 1, Num (0::real)] = length [Num 10, Num 12, NaN]"
    by (simp add: delta_col_def delta_frame_def TARGET_COL_def has_text_def)
  note c1 = temp_delta_stats_cases [of torque_frame, THEN conjunct1, THEN mp, OF a1]
  note c3 = temp_delta_stats_cases [of delta_frame "[Num 10, Num 12, NaN]" "[Num 0, Num 1, Num 0]",
      THEN conjunct2, THEN conjunct2, THEN mp, OF a3]
  from c3 have c3': "\<exists>ov gf gn. compute_temp_delta_stats delta_frame = Inr (Stats ov gf gn)
          \<and> g_count gf = 1 \<and> g_count gn = 2"
    by (auto simp: numeral_2_eq_2)
  from a1 c1 a2 a3 c3' show ?thesis by blast
qed

text \<open>
  C7 as stated fails on a dataset that has the temperature-delta column and no target
  column: the statistics are not returned, the lookup of the target raises KeyError.
\<close>

theorem temp_delta_stats_counterexample:
  "compute_temp_delta_stats delta_only = Inl KeyError"
  by (simp add: compute_temp_delta_stats_def delta_only_def delta_col_def columns_def get_col_def
      TARGET_COL_def)

section \<open>Quantiles\<close>

lemma floor_index:
  assumes "0 \<le> h" "h \<le> real (length vs - 1)" "vs \<noteq> []"
  shows "nat \<lfloor>h\<rfloor> < length vs" "real (nat \<lfloor>h\<rfloor>) \<le> h" "h - real (nat \<lfloor>h\<rfloor>) < 1"
proof -
  have f0: "0 \<le> \<lfloor>h\<rfloor>" using assms(1) by simp
  have "\<lfloor>h\<rfloor> \<le> int (length vs - 1)"
    using assms(2) by (simp add: floor_le_iff)
  then have "nat \<lfloor>h\<rfloor> \<le> length vs - 1" using f0 by linarith
  moreover have "length vs > 0" using assms(3) by simp
  ultimately show "nat \<lfloor>h\<rfloor> < length vs" by linarith
  have r: "real (nat \<lfloor>h\<rfloor>) = of_int \<lfloor>h\<rfloor>" using f0 by simp
  show "real (nat \<lfloor>h\<rfloor>) \<le> h" unfolding r by (rule of_int_floor_le)
  show "h - real (nat \<lfloor>h\<rfloor>) < 1" unfolding r by linarith
qed

lemma lerp_bounds:
  assumes "sorted vs" "vs \<noteq> []" "0 \<le> h" "h \<le> real (length vs - 1)"
  shows "vs ! nat \<lfloor>h\<rfloor> \<le> lerp_at vs h"
    and "lerp_at vs h \<le> vs ! min (nat \<lfloor>h\<rfloor> + 1) (length vs - 1)"
proof -
  let ?i = "nat \<lfloor>h\<rfloor>"
  let ?j = "min (?i + 1) (length vs - 1)"
  let ?g = "h - real ?i"
  from floor_index [OF assms(3,4,2)]
  have i: "?i < length vs" and g0: "0 \<le> ?g" and g1: "?g < 1" by simp_all
  have ij: "?i \<le> ?j" using i by simp
  have j: "?j < length vs" using i by simp
  have d: "vs ! ?i \<le> vs ! ?j" using assms(1) ij j by (rule sorted_nth_mono)
  have e: "lerp_at vs h = vs ! ?i + (vs ! ?j - vs ! ?i) * ?g"
    by (simp add: lerp_at_def Let_def)
  have m0: "0 \<le> (vs ! ?j - vs ! ?i) * ?g" using d g0 by simp
  have m1: "(vs ! ?j - vs ! ?i) * ?g \<le> vs ! ?j - vs ! ?i"
    using d g1 by (intro mult_left_le) simp_all
  show "vs ! ?i \<le> lerp_at vs h" using e m0 by linarith
  show "lerp_at vs h \<le> vs ! ?j" using e m1 by linarith
qed

lemma lerp_mono:
  assumes s: "sorted vs" and ne: "vs \<noteq> []"
    and h: "0 \<le> h1" "h1 \<le> h2" "h2 \<le> real (length vs - 1)"
  shows "lerp_at vs h1 \<le> lerp_at vs h2"
proof -
  let ?i1 = "nat \<lfloor>h1\<rfloor>" and ?i2 = "nat \<lfloor>h2\<rfloor>"
  have h1b: "h1 \<le> real (length vs - 1)" and h2a: "0 \<le> h2" using h by linarith+
  have le: "?i1 \<le> ?i2" using h(2) by (simp add: floor_mono nat_mono)
  show ?thesis
  proof (cases "?i1 = ?i2")
    case True
    let ?j = "min (?i1 + 1) (length vs - 1)"
    from floor_index [OF h(1) h1b ne] have i: "?i1 < length vs" by simp
    have d: "vs ! ?i1 \<le> vs ! ?j" using s i by (intro sorted_nth_mono) simp_all
    have "(vs ! ?j - vs ! ?i1) * (h1 - real ?i1) \<le> (vs ! ?j - vs ! ?i1) * (h2 - real ?i1)"
      using d h(2) by (intro mult_left_mono) simp_all
    then show ?thesis using True by (simp add: lerp_at_def Let_def)
  next
    case False
    with le have lt: "?i1 + 1 \<le> ?i2" by simp
    from floor_index [OF h2a h(3) ne] have i2: "?i2 < length vs" by simp
    have "lerp_at vs h1 \<le> vs ! min (?i1 + 1) (length vs - 1)"
      using s ne h(1) h1b by (rule lerp_bounds)
    also have "\<dots> \<le> vs ! ?i2"
      using s i2 lt by (intro sorted_nth_mono) simp_all
    also have "\<dots> \<le> lerp_at vs h2"
      using s ne h2a h(3) by (rule lerp_bounds)
    finally show ?thesis .
  qed
qed

lemma sort_eq_Nil: "(sort xs = []) = (xs = [])"
  by (metis length_sort length_0_conv)

lemma quantile_returns:
  "0 \<le> q \<Longrightarrow> q \<le> 1 \<Longrightarrow> \<not> has_text series \<Longrightarrow>
     quantile series q =
       Inr (if nums_of series = [] then None
            else Some (lerp_at (sort (nums_of series)) (real (length (nums_of series) - 1) * q)))"
  by (simp add: quantile_def Let_def sort_eq_Nil)

lemma quantile_mono:
  assumes "0 \<le> ql" "ql \<le> qh" "qh \<le> 1" "\<not> has_text series" "nums_of series \<noteq> []"
  shows "\<exists>lo hi. quantile series ql = Inr (Some lo) \<and> quantile series qh = Inr (Some hi) \<and> lo \<le> hi"
proof -
  let ?vs = "sort (nums_of series)"
  let ?n = "real (length ?vs - 1)"
  have ne: "?vs \<noteq> []" using assms(5) by (simp add: sort_eq_Nil)
  have "lerp_at ?vs (?n * ql) \<le> lerp_at ?vs (?n * qh)"
  proof (rule lerp_mono)
    show "sorted ?vs" by simp
    show "?vs \<noteq> []" by (rule ne)
    show "0 \<le> ?n * ql" using assms(1) by simp
    show "?n * ql \<le> ?n * qh" using assms(2) by (intro mult_left_mono) simp_all
    have "?n * qh \<le> ?n * 1" using assms(3) by (intro mult_left_mono) simp_all
    then show "?n * qh \<le> real (length ?vs - 1)" by simp
  qed
  moreover have "0 \<le> qh" "ql \<le> 1" using assms by linarith+
  ultimately show ?thesis
    using assms by (simp add: quantile_returns)
qed

section \<open>Categories by quantile\<close>

lemma assign_category_cases:
  "(lo = None) = (hi = None) \<Longrightarrow>
     assign_category lo hi x \<in> {''Low'', ''Medium'', ''High''}
     \<and> (assign_category lo hi x = ''Low'' \<longleftrightarrow> cell_le x lo)
     \<and> (assign_category lo hi x = ''High'' \<longleftrightarrow> cell_gt x lo \<and> cell_ge x hi)
     \<and> (assign_category lo hi x = ''Medium'' \<longleftrightarrow>
          \<not> cell_le x lo \<and> \<not> (cell_gt x lo \<and> cell_ge x hi))"
  by (cases x; cases lo; cases hi) (auto simp: assign_category_def)

text \<open>
  C10. For every series of numbers and missing values and every two quantiles (numbers
  of [0, 1]), \<open>categorize_by_quantiles\<close> returns one label per element, each of them
  Low, Medium or High. The label of an element \<open>x\<close> is Low exactly when \<open>x\<close> is at
  most the low threshold, also when \<open>x\<close> is at least the high threshold; it is High
  exactly when \<open>x\<close> is above the low threshold and at least the high threshold; it is
  Medium in every other case. The three conditions exclude one another, so no element
  falls into two buckets.
\<close>

theorem categorize_labels:
  assumes "\<not> has_text series" "0 \<le> ql" "ql \<le> 1" "0 \<le> qh" "qh \<le> 1"
  shows "\<exists>low_val high_val labels.
           quantile series ql = Inr low_val \<and> quantile series qh = Inr high_val
         \<and> categorize_by_quantiles series ql qh = Inr labels
         \<and> length labels = length series
         \<and> (\<forall>i < length series.
               labels ! i \<in> {''Low'', ''Medium'', ''High''}
             \<and> (labels ! i = ''Low'' \<longleftrightarrow> cell_le (series ! i) low_val)
             \<and> (labels ! i = ''High'' \<longleftrightarrow>
                   cell_gt (series ! i) low_val \<and> cell_ge (series ! i) high_val)
             \<and> (labels ! i = ''Medium'' \<longleftrightarrow>
                   \<not> cell_le (series ! i) low_val
                 \<and> \<not> (cell_gt (series ! i) low_val \<and> cell_ge (series ! i) high_val)))"
proof -
  obtain lo where lo: "quantile series ql = Inr lo" "(lo = None) = (nums_of series = [])"
    using assms by (simp add: quantile_returns)
  obtain hi where hi: "quantile series qh = Inr hi" "(hi = None) = (nums_of series = [])"
    using assms by (simp add: quantile_returns)
  have same: "(lo = None) = (hi = None)" using lo(2) hi(2) by simp
  have cat: "categorize_by_quantiles series ql qh = Inr (map (assign_category lo hi) series)"
    using lo(1) hi(1) by (simp add: categorize_by_quantiles_def)
  show ?thesis
    apply (rule exI [of _ lo])
    apply (rule exI [of _ hi])
    apply (rule exI [of _ "map (assign_category lo hi) series"])
    using lo(1) hi(1) cat assign_category_cases [OF same] by simp blast
qed

theorem categorize_labels_witness:
  "\<not> has_text six_values \<and> (0::real) \<le> 1 / 10 \<and> (1::real) / 10 \<le> 1
   \<and> (0::real) \<le> 9 / 10 \<and> (9::real) / 10 \<le> 1
   \<and> (\<exists>labels. categorize_by_quantiles six_values (1 / 10) (9 / 10) = Inr labels
         \<and> length labels = 6)"
proof -
  have h: "\<not> has_text six_values" by (simp add: six_values_def has_text_def)
  have l: "length six_values = 6" by (simp add: six_values_def)
  from categorize_labels [OF h, of "1 / 10" "9 / 10"] h l show ?thesis by auto
qed

section \<open>Quantile segments\<close>

lemma wf_col_length:
  "wf_frame d \<Longrightarrow> map_of (cols d) c = Some s \<Longrightarrow> length s = length (index d)"
  by (auto simp: wf_frame_def list_all_iff dest!: map_of_SomeD)

lemma map_of_select_rows:
  "map_of (cols (select_rows m d)) c = map_option (select m) (map_of (cols d) c)"
  by (simp add: select_rows_def map_of_map)

lemma length_select:
  "length m = length xs \<Longrightarrow> length (select m xs) = length (filter (\<lambda>b. b) m)"
  by (induction m xs rule: list_induct2) (simp_all add: select_def)

lemma count_map: "length (filter (\<lambda>b. b) (map p xs)) = length (filter p xs)"
  by (induction xs) simp_all

lemma zip_map_same: "zip (map f xs) (map g xs) = map (\<lambda>x. (f x, g x)) xs"
  by (induction xs) simp_all

lemma three_way_count:
  "length (filter P xs) + length (filter (\<lambda>x. \<not> P x \<and> \<not> Q x) xs) + length (filter Q xs)
     = length xs + length (filter (\<lambda>x. P x \<and> Q x) xs)"
  by (induction xs) auto

lemma index_select_rows: "index (select_rows m d) = select m (index d)"
  by (simp add: select_rows_def)

lemma segment_stats_returns:
  assumes "map_of (cols d) TARGET_COL = Some target" "\<not> has_text target"
    "length xs = length (index d)"
  shows "\<exists>seg. segment_stats d (map p xs) label = Inr seg \<and> segment seg = label
           \<and> s_count seg = length (filter p xs)"
proof -
  have "length (select (map p xs) (index d)) = length (filter p xs)"
    using assms(3) by (simp add: length_select_map)
  then show ?thesis
    using assms(1,2) has_text_select [of target "map p xs"]
    by (simp add: segment_stats_def Let_def get_col_def map_of_select_rows series_sum_def
        len_df_def index_select_rows)
qed

lemma quantile_pair:
  assumes "0 \<le> ql" "ql \<le> qh" "qh \<le> 1" "\<not> has_text series"
  shows "\<exists>lo hi. quantile series ql = Inr lo \<and> quantile series qh = Inr hi
           \<and> (nums_of series \<noteq> [] \<longrightarrow> float_le lo hi)
           \<and> (nums_of series = [] \<longrightarrow> lo = None \<and> hi = None)"
proof (cases "nums_of series = []")
  case True
  moreover have "0 \<le> qh" "ql \<le> 1" using assms by linarith+
  ultimately show ?thesis using assms by (simp add: quantile_returns)
next
  case False
  from quantile_mono [OF assms False] False show ?thesis
    by (auto simp: float_le_def)
qed

lemma both_at_thresholds:
  "float_le lo hi \<Longrightarrow> cell_le c lo \<Longrightarrow> cell_ge c hi \<Longrightarrow> lo = hi \<and> (\<exists>x. c = Num x \<and> lo = Some x)"
  by (cases c; cases lo; cases hi) (auto simp: float_le_def)

lemma no_overlap_nan: "lo = None \<Longrightarrow> \<not> cell_le c lo"
  by (cases c) simp_all

text \<open>
  C4 (as amended). Take a well-formed dataset, a column of it that holds numbers or
  missing values, a target column that does so too, and quantiles
  \<open>0 \<le> q_low < q_high \<le> 1\<close>. Then \<open>compute_quantile_failure_rates\<close> returns the
  segments Low, Medium and High, and:
  \<^item> when the column holds at least one number, the low threshold is at most the high
    threshold; when it holds none, both thresholds are NaN;
  \<^item> Low counts the rows at or below the low threshold, High the rows at or above the
    high threshold, Medium the rows in neither;
  \<^item> the three counts add up to the number of rows plus the number of rows that are in
    both Low and High, so to at least the number of rows;
  \<^item> a row that is in both Low and High lies exactly at both thresholds, which are then
    equal.
\<close>

theorem quantile_failure_rates_segments:
  assumes wf: "wf_frame d"
    and col: "map_of (cols d) column = Some series" and num: "\<not> has_text series"
    and tgt: "map_of (cols d) TARGET_COL = Some target" and tnum: "\<not> has_text target"
    and q: "0 \<le> ql" "ql < qh" "qh \<le> 1"
  shows "\<exists>r low_seg mid_seg high_seg.
      compute_quantile_failure_rates d column ql qh = Inr r
    \<and> segments r = [low_seg, mid_seg, high_seg]
    \<and> (nums_of series \<noteq> [] \<longrightarrow> float_le (q_low_value r) (q_high_value r))
    \<and> (nums_of series = [] \<longrightarrow> q_low_value r = None \<and> q_high_value r = None)
    \<and> s_count low_seg = length (filter (\<lambda>c. cell_le c (q_low_value r)) series)
    \<and> s_count mid_seg
        = length (filter (\<lambda>c. \<not> cell_le c (q_low_value r) \<and> \<not> cell_ge c (q_high_value r)) series)
    \<and> s_count high_seg = length (filter (\<lambda>c. cell_ge c (q_high_value r)) series)
    \<and> s_count low_seg + s_count mid_seg + s_count high_seg
        = len_df d
          + length (filter (\<lambda>c. cell_le c (q_low_value r) \<and> cell_ge c (q_high_value r)) series)
    \<and> len_df d \<le> s_count low_seg + s_count mid_seg + s_count high_seg
    \<and> (\<forall>c\<in>set series. cell_le c (q_low_value r) \<and> cell_ge c (q_high_value r)
          \<longrightarrow> q_low_value r = q_high_value r \<and> (\<exists>x. c = Num x \<and> q_low_value r = Some x))"
proof -
  have qle: "ql \<le> qh" using q by simp
  from quantile_pair [OF q(1) qle q(3) num]
  obtain lo hi where lo: "quantile series ql = Inr lo" and hi: "quantile series qh = Inr hi"
    and ord: "nums_of series \<noteq> [] \<longrightarrow> float_le lo hi"
    and nan: "nums_of series = [] \<longrightarrow> lo = None \<and> hi = None"
    by blast
  have len: "length series = length (index d)"
    using wf col by (rule wf_col_length)
  let ?P = "\<lambda>c. cell_le c lo" and ?Q = "\<lambda>c. cell_ge c hi"
  let ?low = "map ?P series" and ?high = "map ?Q series"
  let ?mid = "map (\<lambda>(l, h). \<not> l \<and> \<not> h) (zip ?low ?high)"
  have mid: "?mid = map (\<lambda>c. \<not> ?P c \<and> \<not> ?Q c) series"
    by (simp add: zip_map_same)
  from segment_stats_returns [OF tgt tnum len, of ?P "LowLabel lo"]
  obtain ls where ls: "segment_stats d ?low (LowLabel lo) = Inr ls"
    "s_count ls = length (filter ?P series)"
    by blast
  from segment_stats_returns [OF tgt tnum len, of "\<lambda>c. \<not> ?P c \<and> \<not> ?Q c" MediumLabel]
  obtain ms where ms: "segment_stats d ?mid MediumLabel = Inr ms"
    "s_count ms = length (filter (\<lambda>c. \<not> ?P c \<and> \<not> ?Q c) series)"
    unfolding mid by blast
  from segment_stats_returns [OF tgt tnum len, of ?Q "HighLabel hi"]
  obtain hs where hs: "segment_stats d ?high (HighLabel hi) = Inr hs"
    "s_count hs = length (filter ?Q series)"
    by blast
  define r where "r = \<lparr>q_column = column, q_low = ql, q_low_value = lo, q_high = qh,
      q_high_value = hi, segments = [ls, ms, hs]\<rparr>"
  have run: "compute_quantile_failure_rates d column ql qh = Inr r"
    using col lo hi ls(1) ms(1) hs(1)
    by (simp add: compute_quantile_failure_rates_def get_col_def Let_def r_def)
  have total: "s_count ls + s_count ms + s_count hs
      = len_df d + length (filter (\<lambda>c. ?P c \<and> ?Q c) series)"
    using three_way_count [of ?P series ?Q] len by (simp add: ls(2) ms(2) hs(2) len_df_def)
  have twice: "\<forall>c\<in>set series. ?P c \<and> ?Q c \<longrightarrow> lo = hi \<and> (\<exists>x. c = Num x \<and> lo = Some x)"
  proof (intro ballI impI)
    fix c assume c: "c \<in> set series" and b: "?P c \<and> ?Q c"
    have "nums_of series \<noteq> []" using nan b no_overlap_nan by blast
    with ord have "float_le lo hi" by simp
    with b show "lo = hi \<and> (\<exists>x. c = Num x \<and> lo = Some x)"
      using both_at_thresholds by blast
  qed
  show ?thesis
    apply (rule exI [of _ r])
    apply (rule exI [of _ ls])
    apply (rule exI [of _ ms])
    apply (rule exI [of _ hs])
    using run ord nan ls(2) ms(2) hs(2) total twice
    by (simp add: r_def)
qed


theorem quantile_failure_rates_segments_witness:
  "wf_frame tied_frame
   \<and> map_of (cols tied_frame) ''Torque [Nm]'' = Some [Num 5, Num 5, Num 5]
   \<and> \<not> has_text [Num 5, Num 5, Num 5]
   \<and> map_of (cols tied_frame) TARGET_COL = Some [Num 1, Num 0, Num 1]
   \<and> \<not> has_text [Num 1, Num 0, Num 1]
   \<and> (0::real) \<le> 1 / 10 \<and> (1::real) / 10 < 9 / 10 \<and> (9::real) / 10 \<le> 1
   \<and> (\<exists>r low_seg mid_seg high_seg.
         compute_quantile_failure_rates tied_frame ''Torque [Nm]'' (1 / 10) (9 / 10) = Inr r
       \<and> segments r = [low_seg, mid_seg, high_seg]
       \<and> float_le (q_low_value r) (q_high_value r)
       \<and> len_df tied_frame \<le> s_count low_seg + s_count mid_seg + s_count high_seg)"
proof -
  have w: "wf_frame tied_frame"
    by (simp add: wf_frame_def tied_frame_def columns_def)
  have c: "map_of (cols tied_frame) ''Torque [Nm]'' = Some [Num 5, Num 5, Num 5]"
    by (simp add: tied_frame_def)
  have n: "\<not> has_text [Num 5, Num 5, Num 5]"
    by (simp add: has_text_def)
  have t: "map_of (cols tied_frame) TARGET_COL = Some [Num 1, Num 0, Num 1]"
    by (simp add: tied_frame_def TARGET_COL_def)
  have m: "\<not> has_text [Num 1, Num 0, Num 1]"
    by (simp add: has_text_def)
  have q: "(0::real) \<le> 1 / 10" "(1::real) / 10 < 9 / 10" "(9::real) / 10 \<le> 1"
    by simp_all
  from quantile_failure_rates_segments [OF w c n t m q]
  have "\<exists>r low_seg mid_seg high_seg.
         compute_quantile_failure_rates tied_frame ''Torque [Nm]'' (1 / 10) (9 / 10) = Inr r
       \<and> segments r = [low_seg, mid_seg, high_seg]
       \<and> float_le (q_low_value r) (q_high_value r)
       \<and> len_df tied_frame \<le> s_count low_seg + s_count mid_seg + s_count high_seg"
    by simp blast
  with w c n t m q show ?thesis by blast
qed

text \<open>
  An example of the double count: three rows with the same value are all in Low and all
  in High.
\<close>

lemma quantile_overlap_example:
  "compute_quantile_failure_rates tied_frame ''Torque [Nm]'' (1 / 10) (9 / 10) =
     Inr \<lparr>q_column = ''Torque [Nm]'', q_low = 1 / 10, q_low_value = Some 5,
          q_high = 9 / 10, q_high_value = Some 5,
          segments =
            [\<lparr>segment = LowLabel (Some 5), s_count = 3, s_failure_count = 2,
              s_failure_rate = 2 / 3, s_failure_rate_pct = 200 / 3\<rparr>,
             \<lparr>segment = MediumLabel, s_count = 0, s_failure_count = 0,
              s_failure_rate = 0, s_failure_rate_pct = 0\<rparr>,
             \<lparr>segment = HighLabel (Some 5), s_count = 3, s_failure_count = 2,
              s_failure_rate = 2 / 3, s_failure_rate_pct = 200 / 3\<rparr>]\<rparr>"
  by (simp add: compute_quantile_failure_rates_def tied_frame_def get_col_def quantile_def
      has_text_def lerp_at_def Let_def segment_stats_def select_rows_def select_def len_df_def
      TARGET_COL_def series_sum_def py_int_def)

text \<open>
  C4 as stated fails on the dataset without rows: both thresholds are NaN, and
  \<open>NaN <= NaN\<close> is false.
\<close>

theorem quantile_nan_counterexample:
  "compute_quantile_failure_rates empty_dataset ''Torque [Nm]'' (1 / 10) (9 / 10) =
     Inr \<lparr>q_column = ''Torque [Nm]'', q_low = 1 / 10, q_low_value = None,
          q_high = 9 / 10, q_high_value = None,
          segments =
            [\<lparr>segment = LowLabel None, s_count = 0, s_failure_count = 0,
              s_failure_rate = 0, s_failure_rate_pct = 0\<rparr>,
             \<lparr>segment = MediumLabel, s_count = 0, s_failure_count = 0,
              s_failure_rate = 0, s_failure_rate_pct = 0\<rparr>,
             \<lparr>segment = HighLabel None, s_count = 0, s_failure_count = 0,
              s_failure_rate = 0, s_failure_rate_pct = 0\<rparr>]\<rparr>
   \<and> \<not> float_le None None"
  by (simp add: compute_quantile_failure_rates_def empty_dataset_def REQUIRED_COLUMNS_def
      get_col_def quantile_def has_text_def Let_def segment_stats_def select_rows_def select_def
      len_df_def TARGET_COL_def series_sum_def py_int_def float_le_def)

section \<open>The temperature delta column\<close>






text \<open>
  Beyond the range the int64 difference is another number than the exact one: the
  largest int64 value minus \<open>-1\<close> wraps around to the smallest.
\<close>

lemma int64_sub_wraps: "int64_sub 9223372036854775807 (- 1) = - 9223372036854775808"
  by (simp add: int64_sub_def wrap64_def)






section \<open>Failure rate by Type\<close>

lemma set_nums_of: "set (nums_of s) = {x. Num x \<in> set s}"
  by (induction s rule: nums_of.induct) auto

lemma set_texts_of: "set (texts_of s) = {t. Str t \<in> set s}"
  by (induction s rule: texts_of.induct) auto

lemma set_group_keys: "set (group_keys s) = {c \<in> set s. c \<noteq> NaN}"
proof -
  have "\<And>c. c \<in> set (group_keys s) \<longleftrightarrow> c \<in> set s \<and> c \<noteq> NaN"
    subgoal for c
      by (cases c) (auto simp: group_keys_def set_nums_of set_texts_of)
    done
  then show ?thesis by blast
qed

lemma distinct_group_keys: "distinct (group_keys s)"
  by (auto simp: group_keys_def distinct_map inj_on_def)

lemma group_row_returns:
  "\<not> has_text target \<Longrightarrow>
     \<exists>r. group_row types target k = Inr r \<and> Type r = k
        \<and> t_count r = length (select (map (\<lambda>c. c = k) types) target)"
  using has_text_select [of target "map (\<lambda>c. c = k) types"]
  by (simp add: group_row_def Let_def series_sum_def)

lemma group_rows_returns:
  "\<not> has_text target \<Longrightarrow>
     \<exists>rs. group_rows types target ks = Inr rs \<and> map Type rs = ks
        \<and> (\<forall>r\<in>set rs. t_count r = length (select (map (\<lambda>c. c = Type r) types) target))"
proof (induction ks)
  case Nil
  then show ?case by simp
next
  case (Cons k ks)
  from group_row_returns [OF Cons.prems, of types k]
  obtain r where r: "group_row types target k = Inr r" "Type r = k"
    "t_count r = length (select (map (\<lambda>c. c = k) types) target)" by blast
  from Cons.IH [OF Cons.prems]
  obtain rs where rs: "group_rows types target ks = Inr rs" "map Type rs = ks"
    "\<forall>r\<in>set rs. t_count r = length (select (map (\<lambda>c. c = Type r) types) target)" by blast
  show ?case
    apply (rule exI [of _ "r # rs"])
    using r rs by simp
qed

lemma map_insort_key:
  "map f (insort_key (\<lambda>a. g (f a)) x xs) = insort_key g (f x) (map f xs)"
  by (induction xs) simp_all

lemma map_sort_key: "map f (sort_key (\<lambda>a. g (f a)) xs) = sort_key g (map f xs)"
  by (induction xs) (simp_all add: map_insort_key)

lemma known_types: "(type_order k \<noteq> None) = (k \<in> {Str ''L'', Str ''M'', Str ''H''})"
  by (auto simp: type_order_def)

lemma inj_order_key: "inj_on order_key {Str ''L'', Str ''M'', Str ''H''}"
  by (simp add: inj_on_def order_key_def type_order_def)

lemma sort_known_keys:
  assumes d: "distinct ks" and k: "set ks \<subseteq> {Str ''L'', Str ''M'', Str ''H''}"
  shows "sort_key order_key ks = filter (\<lambda>k. k \<in> set ks) [Str ''L'', Str ''M'', Str ''H'']"
proof -
  let ?xs = "sort_key order_key ks"
  let ?ys = "filter (\<lambda>k. k \<in> set ks) [Str ''L'', Str ''M'', Str ''H'']"
  have sx: "set ?xs = set ks" by simp
  have sy: "set ?ys = set ks" using k by (intro set_eqI) auto
  have inj: "\<And>A. A \<subseteq> {Str ''L'', Str ''M'', Str ''H''} \<Longrightarrow> inj_on order_key A"
    by (rule inj_on_subset [OF inj_order_key])
  have ix: "inj_on order_key (set ?xs)"
    unfolding sx using k by (rule inj)
  have iy: "inj_on order_key (set ?ys)"
    unfolding sy using k by (rule inj)
  have "sorted (map order_key ?xs)" by (rule sorted_sort_key)
  moreover have "distinct (map order_key ?xs)"
    using d ix by (simp add: distinct_map)
  moreover have "sorted (map order_key ?ys)"
    by (simp add: order_key_def type_order_def)
  moreover have "distinct (map order_key ?ys)"
    using iy by (simp only: distinct_map) simp
  moreover have "set (map order_key ?xs) = set (map order_key ?ys)"
    using sx sy by (simp only: set_map)
  ultimately have "map order_key ?xs = map order_key ?ys"
    by (rule sorted_distinct_set_unique)
  moreover have "inj_on order_key (set ?xs \<union> set ?ys)"
    unfolding sx sy Un_absorb using k by (rule inj)
  ultimately show ?thesis
    by (simp only: inj_on_map_eq_map)
qed

lemma sort_by_type_order_types:
  assumes "distinct (map Type rs)"
  shows "map Type (sort_by_type_order rs)
     = filter (\<lambda>k. k \<in> set (map Type rs)) [Str ''L'', Str ''M'', Str ''H'']
       @ filter (\<lambda>k. type_order k = None) (map Type rs)"
proof -
  let ?G = "map Type rs"
  let ?K = "filter (\<lambda>k. type_order k \<noteq> None) ?G"
  have key: "(\<lambda>r. case type_order (Type r) of Some k \<Rightarrow> k | None \<Rightarrow> 0)
      = (\<lambda>r. order_key (Type r))"
    by (simp add: fun_eq_iff order_key_def)
  have a: "map Type (filter (\<lambda>r. type_order (Type r) \<noteq> None) rs) = ?K"
    by (simp add: filter_map o_def)
  have b: "map Type (filter (\<lambda>r. type_order (Type r) = None) rs)
      = filter (\<lambda>k. type_order k = None) ?G"
    by (simp add: filter_map o_def)
  have dk: "distinct ?K" using assms by simp
  have sk: "set ?K \<subseteq> {Str ''L'', Str ''M'', Str ''H''}"
    using known_types by auto
  have mem: "\<And>k. k \<in> {Str ''L'', Str ''M'', Str ''H''} \<Longrightarrow> (k \<in> set ?K) = (k \<in> set ?G)"
    by (auto simp: type_order_def)
  have "map Type (sort_key (\<lambda>r. order_key (Type r)) (filter (\<lambda>r. type_order (Type r) \<noteq> None) rs))
      = sort_key order_key ?K"
    unfolding map_sort_key a ..
  also have "\<dots> = filter (\<lambda>k. k \<in> set ?K) [Str ''L'', Str ''M'', Str ''H'']"
    using dk sk by (rule sort_known_keys)
  also have "\<dots> = filter (\<lambda>k. k \<in> set ?G) [Str ''L'', Str ''M'', Str ''H'']"
    by (rule filter_cong) (auto simp: type_order_def)
  finally show ?thesis
    unfolding sort_by_type_order_def key by (simp only: map_append b)
qed


lemma set_sort_by_type_order: "set (sort_by_type_order rs) = set rs"
  by (auto simp: sort_by_type_order_def)

text \<open>
  C8 (as amended). On a dataset with a Type column and a numeric target column,
  \<open>compute_failure_rate_by_type\<close> returns one row per distinct Type value that is not
  missing, each with the number of rows of that Type, and drops none of them: first the
  rows of L, M and H, in this order, for those of the three that occur, then the rows of
  every other Type value, in the sorted order of \<open>groupby\<close>. The sort-key mapping gives
  an unknown Type value a missing key, and \<open>sort_values\<close> puts rows with a missing key
  last; it removes no row. (Only rows whose Type is missing are left out, by \<open>groupby\<close>.)
\<close>

theorem failure_rate_by_type_rows:
  assumes types: "map_of (cols d) ''Type'' = Some types"
    and target: "map_of (cols d) TARGET_COL = Some target"
    and num: "\<not> has_text target" and len: "length types = length target"
  shows "\<exists>rows. compute_failure_rate_by_type d = Inr rows
     \<and> map Type rows
         = filter (\<lambda>k. k \<in> set types) [Str ''L'', Str ''M'', Str ''H'']
           @ filter (\<lambda>k. type_order k = None) (group_keys types)
     \<and> set (map Type rows) = {c \<in> set types. c \<noteq> NaN}
     \<and> distinct (map Type rows)
     \<and> (\<forall>r\<in>set rows. t_count r = length (filter (\<lambda>c. c = Type r) types) \<and> 0 < t_count r)"
proof -
  let ?G = "group_keys types"
  from group_rows_returns [OF num, of types ?G]
  obtain rs where rs: "group_rows types target ?G = Inr rs" "map Type rs = ?G"
    "\<forall>r\<in>set rs. t_count r = length (select (map (\<lambda>c. c = Type r) types) target)"
    by blast
  let ?rows = "sort_by_type_order rs"
  have run: "compute_failure_rate_by_type d = Inr ?rows"
    using types target rs(1) by (simp add: compute_failure_rate_by_type_def get_col_def)
  have dG: "distinct (map Type rs)" unfolding rs(2) by (rule distinct_group_keys)
  have "filter (\<lambda>k. k \<in> set ?G) [Str ''L'', Str ''M'', Str ''H'']
      = filter (\<lambda>k. k \<in> set types) [Str ''L'', Str ''M'', Str ''H'']"
    by (rule filter_cong) (auto simp: set_group_keys)
  with sort_by_type_order_types [OF dG]
  have order: "map Type ?rows
         = filter (\<lambda>k. k \<in> set types) [Str ''L'', Str ''M'', Str ''H'']
           @ filter (\<lambda>k. type_order k = None) ?G"
    unfolding rs(2) by simp
  have "set (map Type ?rows) = set (map Type rs)"
    by (simp only: set_map set_sort_by_type_order)
  then have all: "set (map Type ?rows) = {c \<in> set types. c \<noteq> NaN}"
    unfolding rs(2) set_group_keys .
  have "distinct (filter (\<lambda>k. k \<in> set types) [Str ''L'', Str ''M'', Str ''H'']
           @ filter (\<lambda>k. type_order k = None) ?G)"
    using distinct_group_keys [of types] by (auto simp: type_order_def)
  then have dist: "distinct (map Type ?rows)"
    unfolding order .
  have counts: "\<forall>r\<in>set ?rows. t_count r = length (filter (\<lambda>c. c = Type r) types) \<and> 0 < t_count r"
  proof
    fix r assume "r \<in> set ?rows"
    then have r: "r \<in> set rs" by (simp add: set_sort_by_type_order)
    with rs(3) len have c: "t_count r = length (filter (\<lambda>c. c = Type r) types)"
      by (simp add: length_select_map)
    from r have "Type r \<in> set ?G" using rs(2) by (metis image_eqI set_map)
    then have "Type r \<in> set types" by (simp add: set_group_keys)
    then have "filter (\<lambda>c. c = Type r) types \<noteq> []"
      by (auto simp: filter_empty_conv)
    with c show "t_count r = length (filter (\<lambda>c. c = Type r) types) \<and> 0 < t_count r"
      by simp
  qed
  show ?thesis
    apply (rule exI [of _ ?rows])
    using run order all dist counts by blast
qed

theorem failure_rate_by_type_rows_witness:
  "map_of (cols unknown_type) ''Type'' = Some [Str ''X'', Str ''M'', Str ''L'']
   \<and> map_of (cols unknown_type) TARGET_COL = Some [Num 1, Num 0, Num 1]
   \<and> \<not> has_text [Num 1, Num 0, Num 1]
   \<and> length [Str ''X'', Str ''M'', Str ''L''] = length [Num 1, Num 0, Num (1::real)]
   \<and> (\<exists>rows. compute_failure_rate_by_type unknown_type = Inr rows
         \<and> Str ''X'' \<in> set (map Type rows))"
proof -
  have t: "map_of (cols unknown_type) ''Type'' = Some [Str ''X'', Str ''M'', Str ''L'']"
    by (simp add: unknown_type_def)
  have g: "map_of (cols unknown_type) TARGET_COL = Some [Num 1, Num 0, Num 1]"
    by (simp add: unknown_type_def TARGET_COL_def)
  have n: "\<not> has_text [Num 1, Num 0, Num 1]"
    by (simp add: has_text_def)
  have l: "length [Str ''X'', Str ''M'', Str ''L''] = length [Num 1, Num 0, Num (1::real)]"
    by simp
  from failure_rate_by_type_rows [OF t g n l]
  obtain rows where "compute_failure_rate_by_type unknown_type = Inr rows"
    "set (map Type rows) = {c \<in> set [Str ''X'', Str ''M'', Str ''L'']. c \<noteq> NaN}"
    by blast
  then have "\<exists>rows. compute_failure_rate_by_type unknown_type = Inr rows
         \<and> Str ''X'' \<in> set (map Type rows)"
    by auto
  with t g n l show ?thesis by blast
qed

text \<open>
  C8 as stated fails on a dataset with the Type values X, M and L: the output has a row
  for X, after the rows of L and M.
\<close>

theorem failure_rate_by_type_unknown_counterexample:
  "compute_failure_rate_by_type unknown_type =
     Inr [\<lparr>Type = Str ''L'', t_count = 1, t_failure_count = 1,
           t_failure_rate = 1, t_failure_rate_pct = 100\<rparr>,
          \<lparr>Type = Str ''M'', t_count = 1, t_failure_count = 0,
           t_failure_rate = 0, t_failure_rate_pct = 0\<rparr>,
          \<lparr>Type = Str ''X'', t_count = 1, t_failure_count = 1,
           t_failure_rate = 1, t_failure_rate_pct = 100\<rparr>]"
  by (simp add: compute_failure_rate_by_type_def unknown_type_def get_col_def TARGET_COL_def
      group_keys_def group_row_def select_def series_sum_def has_text_def Let_def
      sort_by_type_order_def type_order_def less_eq_char_def less_char_def)

section \<open>Guarded divisions\<close>

text \<open>
  The divisions that are guarded: the overall failure rate is 0 on a dataset without
  rows, and on a dataset with rows the failure-mode counts are returned, with a
  percentage of failures of 0 when there is no failure.
\<close>

lemma overall_failure_rate_no_rows:
  "map_of (cols d) TARGET_COL = Some target \<Longrightarrow> \<not> has_text target \<Longrightarrow> len_df d = 0 \<Longrightarrow>
     \<exists>r. compute_overall_failure_rate d = Inr r \<and> total_records r = 0 \<and> failure_rate r = 0"
  by (simp add: compute_overall_failure_rate_def get_col_def series_sum_def Let_def)

lemma mode_loop_returns:
  "0 < n \<Longrightarrow>
   list_all (\<lambda>m. case map_of (cols d) m of None \<Rightarrow> False | Some s \<Rightarrow> \<not> has_text s) modes \<Longrightarrow>
     \<exists>rs. mode_loop d tf n modes = Inr rs \<and> map failure_mode rs = modes
        \<and> (\<forall>r\<in>set rs. pct_of_total r = of_int (m_count r) / real n * 100
                       \<and> (tf \<le> 0 \<longrightarrow> pct_of_failures r = 0))"
proof (induction modes)
  case Nil
  then show ?case by simp
next
  case (Cons m modes)
  from Cons.prems obtain s where s: "map_of (cols d) m = Some s" "\<not> has_text s"
    by (auto split: option.splits)
  from Cons.IH Cons.prems
  obtain rs where rs: "mode_loop d tf n modes = Inr rs" "map failure_mode rs = modes"
    "\<forall>r\<in>set rs. pct_of_total r = of_int (m_count r) / real n * 100
                       \<and> (tf \<le> 0 \<longrightarrow> pct_of_failures r = 0)"
    by auto
  show ?case
    using s rs Cons.prems(1)
    by (simp add: get_col_def series_sum_def Let_def)
qed

end
